theory Spec2Isabelle
  imports Main "HOL-Library.Char_ord" "HOL-Library.List_Lexorder"
begin

section \<open>JavaScript values and numbers\<close>

text \<open>
  The scripts build their tool results as plain object literals. A value is one of the
  kinds the results hold; an object keeps its own properties in insertion order.
  The type \<open>'n\<close> stands for the Number type (IEEE doubles in the engine): the theory never
  looks inside it and takes its arithmetic as the parameter \<open>M\<close> below.
\<close>

datatype 'n jsval =
    Undefined
  | Null
  | Bool bool
  | Num 'n
  | Str string
  | Arr "'n jsval list"
  | Obj "(string \<times> 'n jsval) list"

text \<open>
  The operations on Numbers that the scripts use: \<open>num\<close> is the Number of a length or of
  an integer literal, \<open>show_n\<close> is the conversion to a string that a template literal and
  \<open>toString()\<close> apply, \<open>nan_n\<close> is \<open>NaN\<close>, the others are \<open>+ - * /\<close> and the members of
  \<open>Math\<close>.
\<close>

record 'n numbers =
  num :: "nat \<Rightarrow> 'n"
  plus_n :: "'n \<Rightarrow> 'n \<Rightarrow> 'n"
  minus_n :: "'n \<Rightarrow> 'n \<Rightarrow> 'n"
  times_n :: "'n \<Rightarrow> 'n \<Rightarrow> 'n"
  over_n :: "'n \<Rightarrow> 'n \<Rightarrow> 'n"
  cos_n :: "'n \<Rightarrow> 'n"
  sin_n :: "'n \<Rightarrow> 'n"
  sqrt_n :: "'n \<Rightarrow> 'n"
  pow_n :: "'n \<Rightarrow> 'n \<Rightarrow> 'n"
  pi_n :: "'n"
  round_n :: "'n \<Rightarrow> 'n"
  nan_n :: "'n"
  show_n :: "'n \<Rightarrow> string"

text \<open>Reading a property of an object literal's own properties: \<open>obj.k\<close>.\<close>

fun get_prop :: "'n jsval \<Rightarrow> string \<Rightarrow> 'n jsval" where
  "get_prop (Obj ps) k = (case map_of ps k of None \<Rightarrow> Undefined | Some v \<Rightarrow> v)"
| "get_prop _ k = Undefined"

fun has_prop :: "'n jsval \<Rightarrow> string \<Rightarrow> bool" where
  "has_prop (Obj ps) k = (k \<in> set (map fst ps))"
| "has_prop _ k = False"

text \<open>Assignment \<open>obj.k = v\<close>: an existing property keeps its place, a new one goes last.\<close>

fun assign :: "(string \<times> 'n jsval) list \<Rightarrow> string \<Rightarrow> 'n jsval \<Rightarrow> (string \<times> 'n jsval) list" where
  "assign [] k v = [(k, v)]"
| "assign ((k', v') # ps) k v = (if k' = k then (k, v) # ps else (k', v') # assign ps k v)"

fun set_prop :: "'n jsval \<Rightarrow> string \<Rightarrow> 'n jsval \<Rightarrow> 'n jsval" where
  "set_prop (Obj ps) k v = Obj (assign ps k v)"
| "set_prop x k v = x"

text \<open>Truthiness of the values that the scripts test with \<open>if\<close>, \<open>!\<close>, \<open>&&\<close> and \<open>||\<close>
  (a Number is never tested).\<close>

fun truthy :: "'n jsval \<Rightarrow> bool" where
  "truthy Undefined = False"
| "truthy Null = False"
| "truthy (Bool b) = b"
| "truthy (Str s) = (s \<noteq> [])"
| "truthy _ = True"

section \<open>Effects: the process, the console, exceptions\<close>

text \<open>
  A script runs against the desktop and the host (file system, clock, language model,
  the engine's code evaluator), all external. Their state is the abstract world \<open>'w\<close>;
  an external operation takes the world and returns the new one, with either the value
  or the message of the \<open>Error\<close> it threw.
\<close>

type_synonym ('w, 'a) extern = "'w \<Rightarrow> (string + 'a) \<times> 'w"

text \<open>
  A console line is the text with the \<open>chalk\<close> colour it is printed in; the pictograph
  that starts most messages is left out.
\<close>

datatype colour = Plain | Red | Green | Yellow | Blue | Gray | White | Cyan

type_synonym line = "colour \<times> string"

text \<open>
  The state of the process. \<open>faults\<close> is a history variable that no script reads: the
  messages of the Automation Facade calls that threw, in the order they threw.
\<close>

record 'w proc =
  world :: 'w
  console :: "line list"
  faults :: "string list"

text \<open>
  A piece of code returns a value, throws an \<open>Error\<close> (its message), ends the process
  through \<open>process.exit(code)\<close>, or never returns (\<open>Never\<close>, with the state in which it
  stays): text handed to the engine's evaluator may loop without end.
\<close>

datatype 'a outcome = Ok 'a | Thrown string | Exited nat | Never

type_synonym ('w, 'a) io = "'w proc \<Rightarrow> 'a outcome \<times> 'w proc"

definition ret :: "'a \<Rightarrow> ('w, 'a) io" where
  "ret x = (\<lambda>s. (Ok x, s))"

definition throw :: "string \<Rightarrow> ('w, 'a) io" where
  "throw m = (\<lambda>s. (Thrown m, s))"

definition exit_process :: "nat \<Rightarrow> ('w, 'a) io" where
  "exit_process n = (\<lambda>s. (Exited n, s))"

text \<open>Sequencing, \<open>const x = await m; f(x)\<close>: the rest runs only when \<open>m\<close> returns.\<close>

definition bnd :: "('w, 'a) io \<Rightarrow> ('a \<Rightarrow> ('w, 'b) io) \<Rightarrow> ('w, 'b) io" where
  "bnd m f = (\<lambda>s. case m s of
       (Ok x, s') \<Rightarrow> f x s'
     | (Thrown e, s') \<Rightarrow> (Thrown e, s')
     | (Exited n, s') \<Rightarrow> (Exited n, s')
     | (Never, s') \<Rightarrow> (Never, s'))"

text \<open>\<open>try { m } catch (error) { h(error.message) }\<close>: only a throw reaches the handler.\<close>

definition try_catch :: "('w, 'a) io \<Rightarrow> (string \<Rightarrow> ('w, 'a) io) \<Rightarrow> ('w, 'a) io" where
  "try_catch m h = (\<lambda>s. case m s of
       (Thrown e, s') \<Rightarrow> h e s'
     | r \<Rightarrow> r)"

text \<open>A call of the Automation Facade; a throw is recorded in \<open>faults\<close>.\<close>

definition call :: "('w, 'a) extern \<Rightarrow> ('w, 'a) io" where
  "call ex = (\<lambda>s. case ex (world s) of
       (Inr x, w') \<Rightarrow> (Ok x, s\<lparr>world := w'\<rparr>)
     | (Inl m, w') \<Rightarrow> (Thrown m, s\<lparr>world := w', faults := faults s @ [m]\<rparr>))"

text \<open>A call of the host (file system, clock, model).\<close>

definition host :: "('w, 'a) extern \<Rightarrow> ('w, 'a) io" where
  "host ex = (\<lambda>s. case ex (world s) of
       (Inr x, w') \<Rightarrow> (Ok x, s\<lparr>world := w'\<rparr>)
     | (Inl m, w') \<Rightarrow> (Thrown m, s\<lparr>world := w'\<rparr>))"

text \<open>
  Text run by the engine's evaluator runs in the process, with the globals of the engine
  in reach (\<open>process\<close>, \<open>console\<close>): it acts on the world and prints lines, and it returns
  a value, throws, ends the process or never returns. The facade object is a binding of
  the module and out of its reach.
\<close>

type_synonym ('w, 'a) code = "'w \<Rightarrow> 'a outcome \<times> 'w \<times> line list"

definition run_text :: "('w, 'a) code \<Rightarrow> ('w, 'a) io" where
  "run_text ev = (\<lambda>s. case ev (world s) of
       (out, w', printed) \<Rightarrow> (out, s\<lparr>world := w', console := console s @ printed\<rparr>))"

text \<open>\<open>console.log\<close> and \<open>process.stdout.write\<close>.\<close>

definition print :: "line \<Rightarrow> ('w, unit) io" where
  "print l = (\<lambda>s. (Ok (), s\<lparr>console := console s @ [l]\<rparr>))"

text \<open>\<open>await new Promise(r => setTimeout(r, ms))\<close>: the pause changes nothing the
  scripts can see.\<close>

definition sleep :: "nat \<Rightarrow> ('w, unit) io" where
  "sleep ms = ret ()"

section \<open>The Automation Facade and the host\<close>

text \<open>
  The desktop SDK is external. Its handles are opaque; every method is taken to finish
  within its call (the scripts \<open>await\<close> the asynchronous ones) and either returns or throws.
\<close>

datatype locator = Locator nat

datatype element = Element nat

record 'n screenshot =
  width :: 'n
  height :: 'n
  imageData :: "nat list"

record 'n command_output =
  exitStatus :: "'n option"
  stdout :: string
  stderr :: string

record ('w, 'n) facade =
  captureScreen :: "('w, 'n screenshot) extern"
  ocrScreenshot :: "'n screenshot \<Rightarrow> ('w, string) extern"
  ocrImagePath :: "string \<Rightarrow> ('w, string) extern"
  locator :: "string \<Rightarrow> ('w, locator) extern"
  openApplication :: "string \<Rightarrow> ('w, element) extern"
  applications :: "('w, element list) extern"
  application :: "string \<Rightarrow> ('w, element) extern"
  activateApplication :: "string \<Rightarrow> ('w, unit) extern"
  focusedElement :: "('w, element) extern"
  runCommand :: "string option \<Rightarrow> string option \<Rightarrow> ('w, 'n command_output) extern"
  openFile :: "string \<Rightarrow> ('w, unit) extern"
  openUrl :: "string \<Rightarrow> string option \<Rightarrow> ('w, unit) extern"
  getCurrentBrowserWindow :: "('w, element) extern"
  loc_first :: "locator \<Rightarrow> ('w, element) extern"
  loc_all :: "locator \<Rightarrow> ('w, element list) extern"
  loc_click :: "locator \<Rightarrow> ('w, unit) extern"
  mouseClickAndHold :: "locator \<Rightarrow> 'n \<Rightarrow> 'n \<Rightarrow> ('w, unit) extern"
  mouseMove :: "locator \<Rightarrow> 'n \<Rightarrow> 'n \<Rightarrow> ('w, unit) extern"
  mouseRelease :: "locator \<Rightarrow> ('w, unit) extern"
  el_click :: "element \<Rightarrow> ('w, 'n jsval) extern"
  el_doubleClick :: "element \<Rightarrow> ('w, 'n jsval) extern"
  el_rightClick :: "element \<Rightarrow> ('w, unit) extern"
  el_name :: "element \<Rightarrow> ('w, string option) extern"
  el_role :: "element \<Rightarrow> ('w, string) extern"
  el_text :: "element \<Rightarrow> nat \<Rightarrow> ('w, string) extern"
  el_isVisible :: "element \<Rightarrow> ('w, bool) extern"
  el_isEnabled :: "element \<Rightarrow> ('w, bool) extern"
  el_bounds :: "element \<Rightarrow> ('w, 'n jsval) extern"
  el_typeText :: "element \<Rightarrow> string \<Rightarrow> bool \<Rightarrow> ('w, unit) extern"
  el_focus :: "element \<Rightarrow> ('w, unit) extern"

text \<open>
  The host: \<open>evaluate\<close> is \<open>Function(body)()\<close>, the engine's own evaluator of a function
  body given as text; \<open>platform\<close> is \<open>process.platform\<close>; the others are \<open>fs/promises\<close>,
  the clock (\<open>timestamp\<close> is \<open>new Date().toISOString()\<close>, \<open>now\<close> is \<open>Date.now()\<close>) and the
  language model: \<open>generateText\<close> returns the text of the answer to a prompt,
  \<open>streamText\<close> the chunks of the answer's text stream together with what the property
  \<open>toolCalls\<close> of the response holds for the scripts' test
  \<open>response.toolCalls && response.toolCalls.length > 0\<close>: the elements of an array, or
  \<open>None\<close> when the property is missing or is an object without a \<open>length\<close> (under the
  declared version 4 of the SDK it is a promise, so the test fails and the scripts show
  no tool result). \<open>base64\<close> is a buffer's \<open>toString('base64')\<close>, \<open>stringify\<close> is
  \<open>JSON.stringify\<close> and \<open>upperCase\<close> is \<open>String.prototype.toUpperCase\<close>.
\<close>

record ('w, 'n) hostenv =
  evaluate :: "string \<Rightarrow> ('w, 'n jsval) code"
  platform :: string
  writeFile :: "string \<Rightarrow> nat list \<Rightarrow> ('w, unit) extern"
  writeFileText :: "string \<Rightarrow> string \<Rightarrow> ('w, unit) extern"
  readFile :: "string \<Rightarrow> ('w, nat list) extern"
  readFileText :: "string \<Rightarrow> ('w, string) extern"
  readdir :: "string \<Rightarrow> ('w, string list) extern"
  timestamp :: "('w, string) extern"
  now :: "('w, 'n) extern"
  generateText :: "string \<Rightarrow> ('w, string) extern"
  streamText :: "string \<Rightarrow> ('w, string list \<times> 'n jsval list option) extern"
  base64 :: "nat list \<Rightarrow> string"
  stringify :: "'n jsval \<Rightarrow> string"
  upperCase :: "string \<Rightarrow> string"

section \<open>Strings and conversions\<close>

fun join_with :: "string \<Rightarrow> string list \<Rightarrow> string" where
  "join_with sep [] = []"
| "join_with sep [x] = x"
| "join_with sep (x # y # ys) = x @ sep @ join_with sep (y # ys)"

text \<open>
  A string is the list of its characters, each a code below 256. The white space of the
  language among these is TAB, LF, VT, FF, CR, the space and the no-break space;
  \<open>t.trim()\<close> strips it from both ends.
\<close>

definition is_space :: "char \<Rightarrow> bool" where
  "is_space c = (c \<in> set [CHR 0x20, CHR 0x09, CHR 0x0A, CHR 0x0B, CHR 0x0C, CHR 0x0D, CHR 0xA0])"

definition trim :: "string \<Rightarrow> string" where
  "trim s = rev (dropWhile is_space (rev (dropWhile is_space s)))"

text \<open>\<open>s.substring(0, n)\<close>.\<close>

definition substring0 :: "nat \<Rightarrow> string \<Rightarrow> string" where
  "substring0 n s = take n s"

text \<open>
  The string of a value, as a template literal, \<open>toString()\<close> on a value that has one
  and \<open>Array.prototype.join\<close> compute it; in an array \<open>null\<close> and \<open>undefined\<close> give the
  empty string.
\<close>

fun to_string :: "'n numbers \<Rightarrow> 'n jsval \<Rightarrow> string" where
  "to_string M Undefined = ''undefined''"
| "to_string M Null = ''null''"
| "to_string M (Bool b) = (if b then ''true'' else ''false'')"
| "to_string M (Num n) = show_n M n"
| "to_string M (Str s) = s"
| "to_string M (Arr vs) =
     join_with '','' (map (\<lambda>v. if v = Undefined \<or> v = Null then [] else to_string M v) vs)"
| "to_string M (Obj ps) = ''[object Object]''"

definition item_string :: "'n numbers \<Rightarrow> 'n jsval \<Rightarrow> string" where
  "item_string M v = (if v = Undefined \<or> v = Null then [] else to_string M v)"

text \<open>\<open>v.toString()\<close>: there is none on \<open>undefined\<close> and \<open>null\<close>.\<close>

definition toString :: "'n numbers \<Rightarrow> 'n jsval \<Rightarrow> ('w, string) io" where
  "toString M v = (if v = Undefined \<or> v = Null then throw ''TypeError'' else ret (to_string M v))"

text \<open>\<open>v.k\<close> on a value that may be \<open>undefined\<close> or \<open>null\<close>.\<close>

definition read_prop :: "'n jsval \<Rightarrow> string \<Rightarrow> ('w, 'n jsval) io" where
  "read_prop v k = (if v = Undefined \<or> v = Null then throw ''TypeError'' else ret (get_prop v k))"

text \<open>A loop that runs an effectful body over a list, in order, collecting the results
  (\<open>Array.prototype.map\<close> with a callback, \<open>forEach\<close>, \<open>for ... of\<close>).\<close>

fun each :: "('a \<Rightarrow> ('w, 'b) io) \<Rightarrow> 'a list \<Rightarrow> ('w, 'b list) io" where
  "each f [] = ret []"
| "each f (x # xs) = bnd (f x) (\<lambda>y. bnd (each f xs) (\<lambda>ys. ret (y # ys)))"

section \<open>The tools of simple-agent.js and test-agent.js\<close>

text \<open>
  The two scripts declare the same seven tools; test-agent.js prints a progress line
  before each step, simple-agent.js does not. The flag \<open>lg\<close> is \<open>True\<close> for test-agent.js.
\<close>

definition progress :: "bool \<Rightarrow> string \<Rightarrow> ('w, unit) io" where
  "progress lg t = (if lg then print (Yellow, t) else ret ())"

text \<open>\<open>{ success: false, error: error.message }\<close>\<close>

definition failure :: "string \<Rightarrow> 'n jsval" where
  "failure m = Obj [(''success'', Bool False), (''error'', Str m)]"

definition screenshot_execute ::
  "bool \<Rightarrow> 'n numbers \<Rightarrow> ('w, 'n) facade \<Rightarrow> bool option \<Rightarrow> ('w, 'n jsval) io" where
  "screenshot_execute lg M F withOCR =
     try_catch
       (bnd (progress lg ''Taking screenshot...'') (\<lambda>_.
        bnd (call (captureScreen F)) (\<lambda>screenshot.
        let message = ''Screenshot taken ('' @ show_n M (width screenshot) @ ''x''
                        @ show_n M (height screenshot) @ '')'';
            result = Obj [(''success'', Bool True), (''message'', Str message)]
        in if (case withOCR of None \<Rightarrow> False | Some b \<Rightarrow> b) then
             bnd (progress lg ''Extracting text...'') (\<lambda>_.
             bnd (call (ocrScreenshot F screenshot)) (\<lambda>text.
             ret (set_prop (set_prop result ''extractedText'' (Str text)) ''message''
                    (Str (message @ '' with '' @ show_n M (num M (length text))
                            @ '' characters of text extracted'')))))
           else ret result)))
       (\<lambda>error. ret (failure error))"

definition clickElement_execute ::
  "bool \<Rightarrow> ('w, 'n) facade \<Rightarrow> string \<Rightarrow> ('w, 'n jsval) io" where
  "clickElement_execute lg F selector =
     try_catch
       (bnd (progress lg (''Looking for '' @ selector @ ''...'')) (\<lambda>_.
        bnd (call (locator F selector)) (\<lambda>l.
        bnd (call (loc_first F l)) (\<lambda>element.
        bnd (progress lg ''Clicking...'') (\<lambda>_.
        bnd (call (el_click F element)) (\<lambda>_.
        ret (Obj [(''success'', Bool True), (''message'', Str (''Clicked on '' @ selector))])))))))
       (\<lambda>error. ret (failure error))"

text \<open>\<open>el.name() || 'Unknown'\<close>: \<open>null\<close> and the empty string give the default.\<close>

definition or_unknown :: "string option \<Rightarrow> string" where
  "or_unknown n = (case n of None \<Rightarrow> ''Unknown'' | Some s \<Rightarrow> if s = [] then ''Unknown'' else s)"

text \<open>The callback of \<open>map\<close> in findElements: one detail object for an element.\<close>

definition element_detail :: "('w, 'n) facade \<Rightarrow> element \<Rightarrow> ('w, 'n jsval) io" where
  "element_detail F el =
     bnd (call (el_name F el)) (\<lambda>n.
     bnd (call (el_role F el)) (\<lambda>r.
     bnd (call (el_text F el 1)) (\<lambda>t.
     bnd (call (el_isVisible F el)) (\<lambda>v.
     ret (Obj [(''name'', Str (or_unknown n)), (''role'', Str r), (''text'', Str t),
               (''visible'', Bool v)])))))"

definition findElements_execute ::
  "bool \<Rightarrow> 'n numbers \<Rightarrow> ('w, 'n) facade \<Rightarrow> string \<Rightarrow> ('w, 'n jsval) io" where
  "findElements_execute lg M F selector =
     try_catch
       (bnd (progress lg (''Searching for '' @ selector @ ''...'')) (\<lambda>_.
        bnd (call (locator F selector)) (\<lambda>l.
        bnd (call (loc_all F l)) (\<lambda>elements.
        bnd (each (element_detail F) (take 5 elements)) (\<lambda>details.
        ret (Obj [(''success'', Bool True),
                  (''count'', Num (num M (length elements))),
                  (''elements'', Arr details),
                  (''message'', Str (''Found '' @ show_n M (num M (length elements))
                                      @ '' elements matching '' @ selector))]))))))
       (\<lambda>error. ret (failure error))"

text \<open>A name that may be \<open>null\<close>, as a value.\<close>

definition name_value :: "string option \<Rightarrow> 'n jsval" where
  "name_value n = (case n of None \<Rightarrow> Null | Some s \<Rightarrow> Str s)"

definition openApp_execute ::
  "bool \<Rightarrow> ('w, 'n) facade \<Rightarrow> string \<Rightarrow> ('w, 'n jsval) io" where
  "openApp_execute lg F appName =
     try_catch
       (bnd (progress lg (''Opening '' @ appName @ ''...'')) (\<lambda>_.
        bnd (call (openApplication F appName)) (\<lambda>app.
        bnd (call (el_name F app)) (\<lambda>n.
        bnd (call (el_role F app)) (\<lambda>r.
        ret (Obj [(''success'', Bool True),
                  (''message'', Str (''Opened '' @ appName)),
                  (''app'', Obj [(''name'', name_value n), (''role'', Str r)])]))))))
       (\<lambda>error. ret (failure error))"

definition typeText_execute ::
  "bool \<Rightarrow> ('w, 'n) facade \<Rightarrow> string \<Rightarrow> ('w, 'n jsval) io" where
  \<open>typeText_execute lg F text =
     try_catch
       (bnd (progress lg (''Typing "'' @ text @ ''"...'')) (\<lambda>_.
        bnd (call (focusedElement F)) (\<lambda>element.
        bnd (call (el_typeText F element text False)) (\<lambda>_.
        ret (Obj [(''success'', Bool True), (''message'', Str (''Typed: "'' @ text @ ''"''))])))))
       (\<lambda>error. ret (failure error))\<close>

text \<open>
  The calculator hands the text \<open>"use strict"; return (<expression>)\<close> to the engine's
  evaluator; whatever is thrown in the block is reported under one fixed message. When
  the text ends the process (\<open>process.exit(3)\<close>) or never returns, so does the tool: the
  \<open>catch\<close> block sees exceptions only.
\<close>

definition calculate_execute ::
  "bool \<Rightarrow> 'n numbers \<Rightarrow> ('w, 'n) hostenv \<Rightarrow> string \<Rightarrow> ('w, 'n jsval) io" where
  \<open>calculate_execute lg M H expression =
     try_catch
       (bnd (progress lg (''Calculating '' @ expression @ ''...'')) (\<lambda>_.
        bnd (run_text (evaluate H (''"use strict"; return ('' @ expression @ '')''))) (\<lambda>result.
        bnd (toString M result) (\<lambda>str.
        ret (Obj [(''success'', Bool True),
                  (''result'', Str str),
                  (''message'', Str (expression @ '' = '' @ to_string M result))])))))
       (\<lambda>error. ret (failure ''Invalid mathematical expression''))\<close>

text \<open>An exit status that may be missing, as a value.\<close>

definition status_value :: "'n option \<Rightarrow> 'n jsval" where
  "status_value st = (case st of None \<Rightarrow> Undefined | Some n \<Rightarrow> Num n)"

definition runCommand_execute ::
  "bool \<Rightarrow> 'n numbers \<Rightarrow> ('w, 'n) hostenv \<Rightarrow> ('w, 'n) facade \<Rightarrow> string \<Rightarrow> ('w, 'n jsval) io" where
  "runCommand_execute lg M H F command =
     try_catch
       (bnd (progress lg (''Running command: '' @ command @ ''...'')) (\<lambda>_.
        let isWindows = (platform H = ''win32'') in
        bnd (call (runCommand F (if isWindows then Some command else None)
                                (if \<not> isWindows then Some command else None))) (\<lambda>result.
        ret (Obj [(''success'', Bool True),
                  (''exitCode'', status_value (exitStatus result)),
                  (''output'', Str (stdout result)),
                  (''error'', Str (stderr result)),
                  (''message'', Str (''Command executed with exit code ''
                                      @ to_string M (status_value (exitStatus result))))]))))
       (\<lambda>error. ret (failure error))"

text \<open>The registry \<open>tools\<close> of the two scripts: a call names a tool and carries its
  validated arguments.\<close>

datatype agent_call =
    Screenshot "bool option"
  | ClickElement string
  | FindElements string
  | OpenApp string
  | TypeText string
  | Calculate string
  | RunCommand string

fun agent_execute ::
  "bool \<Rightarrow> 'n numbers \<Rightarrow> ('w, 'n) hostenv \<Rightarrow> ('w, 'n) facade \<Rightarrow> agent_call \<Rightarrow> ('w, 'n jsval) io" where
  "agent_execute lg M H F (Screenshot withOCR) = screenshot_execute lg M F withOCR"
| "agent_execute lg M H F (ClickElement selector) = clickElement_execute lg F selector"
| "agent_execute lg M H F (FindElements selector) = findElements_execute lg M F selector"
| "agent_execute lg M H F (OpenApp appName) = openApp_execute lg F appName"
| "agent_execute lg M H F (TypeText t) = typeText_execute lg F t"
| "agent_execute lg M H F (Calculate expression) = calculate_execute lg M H expression"
| "agent_execute lg M H F (RunCommand command) = runCommand_execute lg M H F command"

section \<open>The command line of test-agent.js\<close>

text \<open>
  Printing a property that is a string when it is set: a missing or empty one is
  skipped. The seven tools give such a property no other kind of value; on another kind
  the method the script calls on it is missing, and the step is taken to throw.
\<close>

definition when_text :: "'n jsval \<Rightarrow> (string \<Rightarrow> ('w, unit) io) \<Rightarrow> ('w, unit) io" where
  "when_text v f = (case v of
       Str t \<Rightarrow> if t = [] then ret () else f t
     | _ \<Rightarrow> if truthy v then throw ''TypeError'' else ret ())"

text \<open>\<open>if (v && v.trim()) { f(v.trim()) }\<close>\<close>

definition when_trimmed :: "'n jsval \<Rightarrow> (string \<Rightarrow> ('w, unit) io) \<Rightarrow> ('w, unit) io" where
  "when_trimmed v f = when_text v (\<lambda>t. if trim t = [] then ret () else f (trim t))"

fun enumerate_from :: "nat \<Rightarrow> 'a list \<Rightarrow> (nat \<times> 'a) list" where
  "enumerate_from i [] = []"
| "enumerate_from i (x # xs) = (i, x) # enumerate_from (Suc i) xs"

text \<open>The callback of \<open>result.elements.forEach\<close> in the display of a result.\<close>

definition show_element :: "'n numbers \<Rightarrow> nat \<times> 'n jsval \<Rightarrow> ('w, unit) io" where
  \<open>show_element M p = (case p of (i, el) \<Rightarrow>
     bnd (read_prop el ''name'') (\<lambda>n.
     bnd (print (White, ''  '' @ show_n M (num M (i + 1)) @ ''. '' @ to_string M n @ '' (''
                   @ to_string M (get_prop el ''role'') @ '') ''
                   @ (if truthy (get_prop el ''visible'') then ''[eye]'' else ''[no entry]''))) (\<lambda>_.
     if truthy (get_prop el ''text'')
     then print (Gray, ''     Text: "'' @ to_string M (get_prop el ''text'') @ ''"'')
     else ret ())))\<close>

definition show_elements :: "'n numbers \<Rightarrow> 'n jsval \<Rightarrow> 'n jsval \<Rightarrow> ('w, unit) io" where
  "show_elements M count els = (case els of
       Arr es \<Rightarrow>
         bnd (print (Gray, ''Found '' @ to_string M count @ '' elements:'')) (\<lambda>_.
         bnd (each (show_element M) (enumerate_from 0 es)) (\<lambda>_. ret ()))
     | _ \<Rightarrow> if truthy els then throw ''TypeError'' else ret ())"

text \<open>The block "Display results" of \<open>executeCommand\<close>.\<close>

definition display :: "'n numbers \<Rightarrow> 'n jsval \<Rightarrow> ('w, unit) io" where
  "display M result =
     bnd (read_prop result ''success'') (\<lambda>ok.
     if truthy ok then
       bnd (print (Green, to_string M (get_prop result ''message''))) (\<lambda>_.
       bnd (when_text (get_prop result ''extractedText'') (\<lambda>t.
              bnd (print (Gray, ''Text found ('' @ show_n M (num M (length t)) @ '' chars):'')) (\<lambda>_.
              bnd (print (White, substring0 500 t)) (\<lambda>_.
              if length t > 500 then print (Gray, ''... (truncated)'') else ret ())))) (\<lambda>_.
       bnd (show_elements M (get_prop result ''count'') (get_prop result ''elements'')) (\<lambda>_.
       bnd (when_trimmed (get_prop result ''output'') (\<lambda>t.
              bnd (print (Gray, ''Output:'')) (\<lambda>_. print (White, t)))) (\<lambda>_.
       bnd (when_trimmed (get_prop result ''error'') (\<lambda>t.
              bnd (print (Yellow, ''Stderr:'')) (\<lambda>_. print (Yellow, t)))) (\<lambda>_.
       bnd (if truthy (get_prop result ''result'')
            then print (Cyan, ''Result: '' @ to_string M (get_prop result ''result''))
            else ret ()) (\<lambda>_.
       if truthy (get_prop result ''app'')
       then print (Gray, ''App: '' @ to_string M (get_prop (get_prop result ''app'') ''name'')
                          @ '' ('' @ to_string M (get_prop (get_prop result ''app'') ''role'') @ '')'')
       else ret ()))))))
     else
       bnd (print (Red, to_string M (get_prop result ''error''))) (\<lambda>_. exit_process 1))"

text \<open>The body of the loop of the \<open>chat\<close> subcommand over the tool calls of the
  response.\<close>

definition chat_show :: "'n numbers \<Rightarrow> 'n jsval \<Rightarrow> ('w, unit) io" where
  "chat_show M toolCall =
     bnd (read_prop toolCall ''result'') (\<lambda>toolResult.
     bnd (read_prop toolResult ''success'') (\<lambda>ok.
     if truthy ok then
       bnd (print (Green, ''\<newline>'' @ to_string M (get_prop toolResult ''message''))) (\<lambda>_.
       bnd (when_text (get_prop toolResult ''extractedText'') (\<lambda>t.
              print (Gray, ''Text found: '' @ substring0 200 t @ ''...''))) (\<lambda>_.
       bnd (case get_prop toolResult ''elements'' of
              Arr es \<Rightarrow>
                bnd (each (\<lambda>e. read_prop e ''name'') es) (\<lambda>names.
                print (Gray, ''Elements: '' @ join_with '', '' (map (item_string M) names)))
            | v \<Rightarrow> if truthy v then throw ''TypeError'' else ret ()) (\<lambda>_.
       when_trimmed (get_prop toolResult ''output'') (\<lambda>t. print (Gray, ''Output: '' @ t)))))
     else print (Red, ''\<newline>Error: '' @ to_string M (get_prop toolResult ''error''))))"

text \<open>\<open>!params[0]\<close>: no first parameter, or an empty one.\<close>

definition missing :: "string list \<Rightarrow> bool" where
  "missing params = (case params of [] \<Rightarrow> True | p # _ \<Rightarrow> p = [])"

definition refuse :: "string \<Rightarrow> ('w, 'a) io" where
  "refuse t = bnd (print (Red, t)) (\<lambda>_. exit_process 1)"

text \<open>
  The \<open>chat\<close> case: the request carries the joined parameters as the user message (the
  system prompt and the registry it also carries are fixed by the script); the text
  chunks are written out, the results of the tool calls are shown when the response
  holds an array of them, and the process exits with 0.
\<close>

definition chat_case :: "'n numbers \<Rightarrow> ('w, 'n) hostenv \<Rightarrow> string list \<Rightarrow> ('w, 'n jsval) io" where
  "chat_case M H params =
     (if missing params then refuse ''Please provide a message''
      else
        bnd (print (Blue, ''\<newline>AI:  { newline: false }'')) (\<lambda>_.
        bnd (host (streamText H (join_with '' '' params))) (\<lambda>response.
        bnd (each (\<lambda>chunk. print (Blue, chunk)) (fst response)) (\<lambda>_.
        bnd (case snd response of
               None \<Rightarrow> ret ()
             | Some toolCalls \<Rightarrow>
                 if toolCalls \<noteq> [] then bnd (each (chat_show M) toolCalls) (\<lambda>_. ret ())
                 else ret ()) (\<lambda>_.
        bnd (print (Plain, ''\<newline>'')) (\<lambda>_.
        exit_process 0))))))"

text \<open>The \<open>switch (command)\<close> of \<open>executeCommand\<close>: the result of the chosen tool.\<close>

definition switch_command ::
  "'n numbers \<Rightarrow> ('w, 'n) hostenv \<Rightarrow> ('w, 'n) facade \<Rightarrow> string \<Rightarrow> string list \<Rightarrow> ('w, 'n jsval) io" where
  "switch_command M H F command params =
     (if command = ''screenshot'' then
        screenshot_execute True M F (Some (''--ocr'' \<in> set params))
      else if command = ''click'' then
        (if missing params then refuse ''Please provide a selector''
         else clickElement_execute True F (hd params))
      else if command = ''find'' then
        (if missing params then refuse ''Please provide a selector''
         else findElements_execute True M F (hd params))
      else if command = ''open'' then
        (if missing params then refuse ''Please provide an app name''
         else openApp_execute True F (hd params))
      else if command = ''type'' then
        (if missing params then refuse ''Please provide text to type''
         else typeText_execute True F (join_with '' '' params))
      else if command = ''calc'' then
        (if missing params then refuse ''Please provide an expression''
         else calculate_execute True M H (join_with '' '' params))
      else if command = ''run'' then
        (if missing params then refuse ''Please provide a command''
         else runCommand_execute True M H F (join_with '' '' params))
      else if command = ''chat'' then chat_case M H params
      else refuse (''Unknown command: '' @ command))"

text \<open>
  \<open>executeCommand\<close> returns the tool result it displayed; the script itself drops it.
\<close>

definition executeCommand ::
  "'n numbers \<Rightarrow> ('w, 'n) hostenv \<Rightarrow> ('w, 'n) facade \<Rightarrow> string \<Rightarrow> string list \<Rightarrow> ('w, 'n jsval) io" where
  "executeCommand M H F command params =
     try_catch
       (bnd (switch_command M H F command params) (\<lambda>result.
        bnd (display M result) (\<lambda>_. ret result)))
       (\<lambda>error. bnd (print (Red, ''Fatal error: '' @ error)) (\<lambda>_. exit_process 1))"

definition usage :: "line list" where
  \<open>usage =
     [(Blue, ''\<newline>Test Agent - CLI Mode''),
      (Gray, ''Usage examples:''),
      (White, ''  node test-agent.js screenshot''),
      (White, ''  node test-agent.js screenshot --ocr''),
      (White, ''  node test-agent.js click "name:Calculator"''),
      (White, ''  node test-agent.js find "role:button"''),
      (White, ''  node test-agent.js open "notepad"''),
      (White, ''  node test-agent.js type "hello world"''),
      (White, ''  node test-agent.js calc "2+2"''),
      (White, ''  node test-agent.js run "dir"''),
      (White, ''  node test-agent.js chat "take a screenshot"'')]\<close>

text \<open>
  The script from its first line, once \<open>new Desktop()\<close> has returned the facade \<open>F\<close>;
  \<open>argv\<close> is \<open>process.argv.slice(2)\<close>.
\<close>

definition test_agent ::
  "'n numbers \<Rightarrow> ('w, 'n) hostenv \<Rightarrow> ('w, 'n) facade \<Rightarrow> string list \<Rightarrow> ('w, 'n jsval) io" where
  "test_agent M H F argv =
     bnd (print (Blue, ''Initializing Desktop automation engine'')) (\<lambda>_.
     bnd (print (Green, ''Desktop automation engine initialized'')) (\<lambda>_.
     if missing argv then bnd (each print usage) (\<lambda>_. exit_process 0)
     else executeCommand M H F (hd argv) (tl argv)))"

text \<open>
  The exit code of the process: the argument of \<open>process.exit\<close>, 0 when the script runs
  to its end, 1 when an exception is left uncaught; a process that never ends has none.
\<close>

fun exit_code :: "'a outcome \<Rightarrow> nat option" where
  "exit_code (Ok x) = Some 0"
| "exit_code (Exited n) = Some n"
| "exit_code (Thrown e) = Some 1"
| "exit_code Never = None"

text \<open>What a run handed back, if it came to hand anything back.\<close>

fun returned :: "'a outcome \<Rightarrow> 'a option" where
  "returned (Ok x) = Some x"
| "returned _ = None"

section \<open>The tools of vision-artist.js\<close>

text \<open>
  \<open>testTool\<close> calls these tools by name with an argument object, so each takes the
  properties of that object and destructures it as the source does: a property that is
  missing or \<open>undefined\<close> takes the default of the parameter list.
\<close>

type_synonym 'n props = "(string \<times> 'n jsval) list"

definition arg :: "'n props \<Rightarrow> string \<Rightarrow> 'n jsval" where
  "arg params k = get_prop (Obj params) k"

definition arg_default :: "'n props \<Rightarrow> string \<Rightarrow> 'n jsval \<Rightarrow> 'n jsval" where
  "arg_default params k d = (if arg params k = Undefined then d else arg params k)"

definition openPaint_execute :: "('w, 'n) facade \<Rightarrow> ('w, 'n jsval) io" where
  "openPaint_execute F =
     try_catch
       (bnd (print (Yellow, ''Opening MS Paint...'')) (\<lambda>_.
        bnd (call (openApplication F ''mspaint'')) (\<lambda>app.
        bnd (sleep 3000) (\<lambda>_.
        bnd (call (el_name F app)) (\<lambda>n.
        bnd (call (el_role F app)) (\<lambda>r.
        ret (Obj [(''success'', Bool True),
                  (''message'', Str ''MS Paint opened successfully and ready for drawing!''),
                  (''app'', Obj [(''name'', name_value n), (''role'', Str r)])])))))))
       (\<lambda>error. ret (failure error))"

text \<open>The nested handlers of setupBrush: a second selector is tried when the first
  brush click throws, and a second throw is dropped ("might already be selected").\<close>

definition select_brush :: "('w, 'n) facade \<Rightarrow> ('w, unit) io" where
  "select_brush F =
     try_catch
       (bnd (call (locator F ''name:Brush'')) (\<lambda>brushTool. call (loc_click F brushTool)))
       (\<lambda>_. try_catch
          (bnd (call (locator F ''automationid:BrushTool'')) (\<lambda>brushTool.
           call (loc_click F brushTool)))
          (\<lambda>_. ret ()))"

definition setupBrush_execute ::
  "'n numbers \<Rightarrow> ('w, 'n) facade \<Rightarrow> 'n props \<Rightarrow> ('w, 'n jsval) io" where
  "setupBrush_execute M F params =
     (let size = arg_default params ''size'' (Str ''medium'');
          color = arg_default params ''color'' (Str ''black'')
      in try_catch
       (bnd (print (Yellow, ''Setting up brush: '' @ to_string M size @ '' ''
                              @ to_string M color @ ''...'')) (\<lambda>_.
        bnd (select_brush F) (\<lambda>_.
        bnd (sleep 500) (\<lambda>_.
        ret (Obj [(''success'', Bool True),
                  (''message'', Str (''Brush configured: '' @ to_string M size @ '' ''
                                      @ to_string M color @ '' brush ready!'')),
                  (''settings'', Obj [(''size'', size), (''color'', color)])])))))
       (\<lambda>error. ret (failure error)))"

subsection \<open>The shape generators\<close>

text \<open>
  A point is a pair of Numbers. The counter of a \<open>for\<close> loop is a small whole Number,
  kept here as a natural number and turned into a Number where the body computes with it.
\<close>

type_synonym 'n point = "'n \<times> 'n"

text \<open>\<open>(i * Math.PI) / 180\<close>\<close>

definition radians :: "'n numbers \<Rightarrow> nat \<Rightarrow> 'n" where
  "radians M i = over_n M (times_n M (num M i) (pi_n M)) (num M 180)"

text \<open>\<open>[c + radius * Math.cos(angle), d + radius * Math.sin(angle)]\<close>\<close>

definition polar :: "'n numbers \<Rightarrow> 'n \<Rightarrow> 'n \<Rightarrow> 'n \<Rightarrow> 'n \<Rightarrow> 'n point" where
  "polar M x y radius angle =
     (plus_n M x (times_n M radius (cos_n M angle)),
      plus_n M y (times_n M radius (sin_n M angle)))"

function circle_loop :: "'n numbers \<Rightarrow> 'n \<Rightarrow> 'n \<Rightarrow> 'n \<Rightarrow> nat \<Rightarrow> 'n point list \<Rightarrow> 'n point list" where
  "circle_loop M x y radius i points =
     (if i \<le> 360
      then circle_loop M x y radius (i + 10) (points @ [polar M x y radius (radians M i)])
      else points)"
  by pat_completeness auto
termination
  by (relation "measure (\<lambda>(M, x, y, radius, i, points). 361 - i)") auto

declare circle_loop.simps [simp del]

text \<open>The array \<open>points\<close> of \<open>drawCircle\<close> when the loop has ended.\<close>

definition circle_points :: "'n numbers \<Rightarrow> 'n \<Rightarrow> 'n \<Rightarrow> 'n \<Rightarrow> 'n point list" where
  "circle_points M x y radius = circle_loop M x y radius 0 []"

definition square_points :: "'n numbers \<Rightarrow> 'n \<Rightarrow> 'n \<Rightarrow> 'n \<Rightarrow> 'n point list" where
  "square_points M x y sz =
     (let half = over_n M sz (num M 2)
      in [(minus_n M x half, minus_n M y half),
          (plus_n M x half, minus_n M y half),
          (plus_n M x half, plus_n M y half),
          (minus_n M x half, plus_n M y half),
          (minus_n M x half, minus_n M y half)])"

text \<open>The body of the loop of \<open>drawStar\<close>: the point for the counter \<open>i\<close>.\<close>

definition star_point :: "'n numbers \<Rightarrow> 'n \<Rightarrow> 'n \<Rightarrow> 'n \<Rightarrow> nat \<Rightarrow> 'n point" where
  "star_point M x y sz i =
     (let angle = over_n M (times_n M (times_n M (num M i) (num M 36)) (pi_n M)) (num M 180);
          radius = (if i mod 2 = 0 then sz else over_n M sz (num M 2))
      in polar M x y radius (minus_n M angle (over_n M (pi_n M) (num M 2))))"

function star_loop :: "'n numbers \<Rightarrow> 'n \<Rightarrow> 'n \<Rightarrow> 'n \<Rightarrow> nat \<Rightarrow> 'n point list \<Rightarrow> 'n point list" where
  "star_loop M x y sz i points =
     (if i < 11
      then star_loop M x y sz (i + 1) (points @ [star_point M x y sz i])
      else points)"
  by pat_completeness auto
termination
  by (relation "measure (\<lambda>(M, x, y, sz, i, points). 11 - i)") auto

declare star_loop.simps [simp del]

definition star_points :: "'n numbers \<Rightarrow> 'n \<Rightarrow> 'n \<Rightarrow> 'n \<Rightarrow> 'n point list" where
  "star_points M x y sz = star_loop M x y sz 0 []"

text \<open>The body of the loop of \<open>drawHeart\<close>, with \<open>scale = size / 20\<close>.\<close>

definition heart_point :: "'n numbers \<Rightarrow> 'n \<Rightarrow> 'n \<Rightarrow> 'n \<Rightarrow> nat \<Rightarrow> 'n point" where
  "heart_point M x y scale i =
     (let t = radians M i;
          c = (\<lambda>k. cos_n M (times_n M (num M k) t))
      in (plus_n M x (times_n M (times_n M scale (num M 16)) (pow_n M (sin_n M t) (num M 3))),
          minus_n M y (times_n M scale
            (minus_n M
               (minus_n M
                  (minus_n M (times_n M (num M 13) (cos_n M t)) (times_n M (num M 5) (c 2)))
                  (times_n M (num M 2) (c 3)))
               (c 4)))))"

function heart_loop :: "'n numbers \<Rightarrow> 'n \<Rightarrow> 'n \<Rightarrow> 'n \<Rightarrow> nat \<Rightarrow> 'n point list \<Rightarrow> 'n point list" where
  "heart_loop M x y scale i points =
     (if i < 360
      then heart_loop M x y scale (i + 10) (points @ [heart_point M x y scale i])
      else points)"
  by pat_completeness auto
termination
  by (relation "measure (\<lambda>(M, x, y, scale, i, points). 360 - i)") auto

declare heart_loop.simps [simp del]

definition heart_points :: "'n numbers \<Rightarrow> 'n \<Rightarrow> 'n \<Rightarrow> 'n \<Rightarrow> 'n point list" where
  "heart_points M x y sz = heart_loop M x y (over_n M sz (num M 20)) 0 []"

definition triangle_points :: "'n numbers \<Rightarrow> 'n \<Rightarrow> 'n \<Rightarrow> 'n \<Rightarrow> 'n point list" where
  "triangle_points M x y sz =
     (let height = over_n M (times_n M sz (sqrt_n M (num M 3))) (num M 2);
          top = (x, minus_n M y (over_n M height (num M 2)))
      in [top,
          (minus_n M x (over_n M sz (num M 2)), plus_n M y (over_n M height (num M 2))),
          (plus_n M x (over_n M sz (num M 2)), plus_n M y (over_n M height (num M 2))),
          top])"

function spiral_loop :: "'n numbers \<Rightarrow> 'n \<Rightarrow> 'n \<Rightarrow> 'n \<Rightarrow> nat \<Rightarrow> 'n point list \<Rightarrow> 'n point list" where
  "spiral_loop M x y sz i points =
     (if i < 720
      then spiral_loop M x y sz (i + 15)
             (points @ [polar M x y (times_n M (over_n M (num M i) (num M 720)) sz)
                               (radians M i)])
      else points)"
  by pat_completeness auto
termination
  by (relation "measure (\<lambda>(M, x, y, sz, i, points). 720 - i)") auto

declare spiral_loop.simps [simp del]

definition spiral_points :: "'n numbers \<Rightarrow> 'n \<Rightarrow> 'n \<Rightarrow> 'n \<Rightarrow> 'n point list" where
  "spiral_points M x y sz = spiral_loop M x y sz 0 []"

subsection \<open>Replaying points as a drag\<close>

definition drawConnectedPoints ::
  "'n numbers \<Rightarrow> ('w, 'n) facade \<Rightarrow> locator \<Rightarrow> 'n point list \<Rightarrow> ('w, unit) io" where
  "drawConnectedPoints M F canvas points = (case points of
       [] \<Rightarrow> ret ()
     | start # rest \<Rightarrow>
         try_catch
           (bnd (call (mouseClickAndHold F canvas (round_n M (fst start)) (round_n M (snd start)))) (\<lambda>_.
            bnd (sleep 100) (\<lambda>_.
            bnd (each (\<lambda>p. bnd (call (mouseMove F canvas (round_n M (fst p)) (round_n M (snd p))))
                               (\<lambda>_. sleep 50)) rest) (\<lambda>_.
            call (mouseRelease F canvas)))))
           (\<lambda>error. print (Gray, ''Drawing points: '' @ error)))"

definition drawLine ::
  "'n numbers \<Rightarrow> ('w, 'n) facade \<Rightarrow> locator \<Rightarrow> 'n \<Rightarrow> 'n \<Rightarrow> 'n \<Rightarrow> 'n \<Rightarrow> ('w, unit) io" where
  "drawLine M F canvas x1 y1 x2 y2 =
     try_catch
       (bnd (call (mouseClickAndHold F canvas (round_n M x1) (round_n M y1))) (\<lambda>_.
        bnd (sleep 100) (\<lambda>_.
        bnd (call (mouseMove F canvas (round_n M x2) (round_n M y2))) (\<lambda>_.
        call (mouseRelease F canvas)))))
       (\<lambda>error. print (Gray, ''Drawing line: '' @ error))"

definition drawCircle ::
  "'n numbers \<Rightarrow> ('w, 'n) facade \<Rightarrow> locator \<Rightarrow> 'n \<Rightarrow> 'n \<Rightarrow> 'n \<Rightarrow> ('w, unit) io" where
  "drawCircle M F canvas x y radius = drawConnectedPoints M F canvas (circle_points M x y radius)"

definition drawSquare ::
  "'n numbers \<Rightarrow> ('w, 'n) facade \<Rightarrow> locator \<Rightarrow> 'n \<Rightarrow> 'n \<Rightarrow> 'n \<Rightarrow> ('w, unit) io" where
  "drawSquare M F canvas x y sz = drawConnectedPoints M F canvas (square_points M x y sz)"

definition drawStar ::
  "'n numbers \<Rightarrow> ('w, 'n) facade \<Rightarrow> locator \<Rightarrow> 'n \<Rightarrow> 'n \<Rightarrow> 'n \<Rightarrow> ('w, unit) io" where
  "drawStar M F canvas x y sz = drawConnectedPoints M F canvas (star_points M x y sz)"

definition drawHeart ::
  "'n numbers \<Rightarrow> ('w, 'n) facade \<Rightarrow> locator \<Rightarrow> 'n \<Rightarrow> 'n \<Rightarrow> 'n \<Rightarrow> ('w, unit) io" where
  "drawHeart M F canvas x y sz = drawConnectedPoints M F canvas (heart_points M x y sz)"

definition drawTriangle ::
  "'n numbers \<Rightarrow> ('w, 'n) facade \<Rightarrow> locator \<Rightarrow> 'n \<Rightarrow> 'n \<Rightarrow> 'n \<Rightarrow> ('w, unit) io" where
  "drawTriangle M F canvas x y sz = drawConnectedPoints M F canvas (triangle_points M x y sz)"

definition drawSpiral ::
  "'n numbers \<Rightarrow> ('w, 'n) facade \<Rightarrow> locator \<Rightarrow> 'n \<Rightarrow> 'n \<Rightarrow> 'n \<Rightarrow> ('w, unit) io" where
  "drawSpiral M F canvas x y sz = drawConnectedPoints M F canvas (spiral_points M x y sz)"

subsection \<open>drawShape, captureArtwork, analyzeArtwork\<close>

text \<open>The canvas of drawShape: three selectors in turn; only a throw on the third
  leaves the block.\<close>

definition find_canvas :: "('w, 'n) facade \<Rightarrow> ('w, locator) io" where
  "find_canvas F =
     try_catch (call (locator F ''name:Canvas''))
       (\<lambda>_. try_catch (call (locator F ''className:MSPaintView''))
          (\<lambda>_. call (locator F ''name:Paint'')))"

text \<open>
  The schema of drawShape admits Numbers for \<open>x\<close>, \<open>y\<close> and \<open>size\<close>. A value of another
  kind is read as \<open>NaN\<close>, which is what the arithmetic makes of a missing one.
\<close>

definition coordinate :: "'n numbers \<Rightarrow> 'n jsval \<Rightarrow> 'n" where
  "coordinate M v = (case v of Num n \<Rightarrow> n | _ \<Rightarrow> nan_n M)"

definition drawShape_execute ::
  "'n numbers \<Rightarrow> ('w, 'n) facade \<Rightarrow> 'n props \<Rightarrow> ('w, 'n jsval) io" where
  "drawShape_execute M F params =
     (let shape = arg params ''shape'';
          x = coordinate M (arg params ''x'');
          y = coordinate M (arg params ''y'');
          sz = coordinate M (arg params ''size'')
      in try_catch
       (bnd (print (Yellow, ''Drawing '' @ to_string M shape @ '' at (''
                       @ to_string M (arg params ''x'') @ '', '' @ to_string M (arg params ''y'')
                       @ '') with size '' @ to_string M (arg params ''size'') @ ''...'')) (\<lambda>_.
        bnd (find_canvas F) (\<lambda>canvas.
        bnd (if shape = Str ''circle'' then drawCircle M F canvas x y sz
             else if shape = Str ''square'' then drawSquare M F canvas x y sz
             else if shape = Str ''star'' then drawStar M F canvas x y sz
             else if shape = Str ''heart'' then drawHeart M F canvas x y sz
             else if shape = Str ''triangle'' then drawTriangle M F canvas x y sz
             else if shape = Str ''line'' then
               drawLine M F canvas (minus_n M x (over_n M sz (num M 2))) y
                                   (plus_n M x (over_n M sz (num M 2))) y
             else if shape = Str ''spiral'' then drawSpiral M F canvas x y sz
             else drawCircle M F canvas x y sz) (\<lambda>_.
        ret (Obj [(''success'', Bool True),
                  (''message'', Str (''Drew '' @ to_string M shape @ '' at position (''
                       @ to_string M (arg params ''x'') @ '', '' @ to_string M (arg params ''y'')
                       @ '') with size '' @ to_string M (arg params ''size''))),
                  (''drawing'', Obj [(''shape'', shape), (''x'', arg params ''x''),
                                     (''y'', arg params ''y''), (''size'', arg params ''size'')])])))))
       (\<lambda>error. ret (failure error)))"

text \<open>\<open>.replace(/[:.]/g, '-')\<close>\<close>

definition dashes :: "string \<Rightarrow> string" where
  "dashes t = map (\<lambda>c. if c = CHR '':'' \<or> c = CHR ''.'' then CHR ''-'' else c) t"

text \<open>\<open>Math.round(bytes.length / 1024)\<close>\<close>

definition size_kb :: "'n numbers \<Rightarrow> nat list \<Rightarrow> 'n" where
  "size_kb M bytes = round_n M (over_n M (num M (length bytes)) (num M 1024))"

definition captureArtwork_execute ::
  "'n numbers \<Rightarrow> ('w, 'n) hostenv \<Rightarrow> ('w, 'n) facade \<Rightarrow> 'n props \<Rightarrow> ('w, 'n jsval) io" where
  "captureArtwork_execute M H F params =
     (let purpose = arg_default params ''purpose'' (Str ''general artwork capture'')
      in try_catch
       (bnd (print (Yellow, ''Capturing artwork...'')) (\<lambda>_.
        bnd (call (captureScreen F)) (\<lambda>screenshot.
        bnd (host (timestamp H)) (\<lambda>iso.
        let filename = ''artwork_'' @ dashes iso @ ''.png'' in
        bnd (host (writeFile H filename (imageData screenshot))) (\<lambda>_.
        let fileSizeKB = size_kb M (imageData screenshot) in
        ret (Obj [(''success'', Bool True),
                  (''message'', Str (''Artwork captured! File: '' @ filename @ '' (''
                                      @ show_n M fileSizeKB @ ''KB)'')),
                  (''capture'', Obj [(''filename'', Str filename),
                                     (''size'', Str (show_n M (width screenshot) @ ''x''
                                                      @ show_n M (height screenshot))),
                                     (''purpose'', purpose),
                                     (''fileSizeKB'', Num fileSizeKB)])]))))))
       (\<lambda>error. ret (failure error)))"

definition starts_with :: "string \<Rightarrow> string \<Rightarrow> bool" where
  "starts_with p t = (take (length p) t = p)"

definition ends_with :: "string \<Rightarrow> string \<Rightarrow> bool" where
  "ends_with q t = (length q \<le> length t \<and> drop (length t - length q) t = q)"

definition text_lines :: "string list \<Rightarrow> string" where
  "text_lines ls = join_with ''\<newline>'' ls"

definition analysisPrompt :: "string \<Rightarrow> string \<Rightarrow> string" where
  "analysisPrompt focus base64Image = text_lines
     [''You are analyzing a screenshot from MS Paint showing digital artwork created by an AI artist.'',
      [],
      ''ANALYSIS FOCUS: '' @ focus,
      [],
      ''Please provide detailed feedback on:'',
      ''1. VISUAL ELEMENTS: What shapes, patterns, or drawings do you see?'',
      ''2. QUALITY: Are the drawn elements clean and well-formed?'',
      ''3. COMPOSITION: How are elements arranged? Is it balanced?'',
      ''4. COLORS: What colors are used?'',
      ''5. SUGGESTIONS: How could this artwork be improved?'',
      [],
      ''Be specific and constructive in your analysis to help the AI artist improve.'',
      [],
      ''[Image data: data:image/png;base64,'' @ substring0 100 base64Image @ ''...]'']"

text \<open>The report returned when the vision model throws (its pictographs left out).\<close>

definition fallbackAnalysis :: "string \<Rightarrow> string \<Rightarrow> string \<Rightarrow> string" where
  "fallbackAnalysis latestFile kb visionError = text_lines
     [''TECHNICAL ANALYSIS of '' @ latestFile @ '':'',
      [],
      ''CAPTURE SUCCESS:'',
      ''- Screenshot saved successfully ('' @ kb @ ''KB)'',
      ''- Paint interface captured'',
      ''- Canvas area included in frame'',
      [],
      ''DRAWING ASSESSMENT:'',
      ''- Drawing operations completed on canvas'',
      ''- Coordinate-based shapes positioned accurately'',
      ''- Multiple drawing commands executed successfully'',
      ''- Geometric patterns and artistic elements created'',
      [],
      ''COMPOSITION NOTES:'',
      ''- Elements placed using precise positioning'',
      ''- Canvas space utilized effectively'',
      ''- Drawing patterns follow artistic algorithms'',
      ''- Good spatial distribution of elements'',
      [],
      ''IMPROVEMENT SUGGESTIONS:'',
      ''- Consider adding complementary shapes'',
      ''- Color variations could enhance appeal'',
      ''- Additional patterns would increase complexity'',
      ''- Balance between drawn and empty space looks good'',
      [],
      ''Note: Detailed visual analysis temporarily limited. Enhanced technical assessment provided.'',
      ''Vision analysis error: '' @ visionError]"

definition analyzeArtwork_execute ::
  "'n numbers \<Rightarrow> ('w, 'n) hostenv \<Rightarrow> 'n props \<Rightarrow> ('w, 'n jsval) io" where
  "analyzeArtwork_execute M H params =
     (let focus = arg_default params ''focus'' (Str ''overall composition and quality'')
      in try_catch
       (bnd (print (Yellow, ''Analyzing artwork with AI vision...'')) (\<lambda>_.
        bnd (host (readdir H ''.'')) (\<lambda>files.
        let artworkFiles = filter (\<lambda>f. starts_with ''artwork_'' f \<and> ends_with ''.png'' f) files in
        if artworkFiles = [] then
          ret (failure ''No artwork captures found. Use captureArtwork first.'')
        else
          let latestFile = last (sort artworkFiles) in
          bnd (host (readFile H latestFile)) (\<lambda>imageData.
          try_catch
            (bnd (host (generateText H (analysisPrompt (to_string M focus) (base64 H imageData)))) (\<lambda>analysis.
             ret (Obj [(''success'', Bool True),
                       (''message'', Str ''Artwork analysis completed''),
                       (''analysis'', Str analysis),
                       (''file'', Str latestFile),
                       (''focus'', focus)])))
            (\<lambda>visionError.
             ret (Obj [(''success'', Bool True),
                       (''message'', Str ''Artwork analysis completed (technical mode)''),
                       (''analysis'', Str (fallbackAnalysis latestFile
                                             (show_n M (size_kb M imageData)) visionError)),
                       (''file'', Str latestFile),
                       (''focus'', focus)]))))))
       (\<lambda>error. ret (failure error)))"

subsection \<open>The registry and the lookup by name\<close>

text \<open>
  \<open>artistTools\<close> is an object literal: its own keys are the five tool names, and a read
  \<open>artistTools[name]\<close> that finds no own key goes on to \<open>Object.prototype\<close>, whose
  properties every object literal inherits.
\<close>

definition artistTools ::
  "'n numbers \<Rightarrow> ('w, 'n) hostenv \<Rightarrow> ('w, 'n) facade \<Rightarrow> (string \<times> ('n props \<Rightarrow> ('w, 'n jsval) io)) list" where
  "artistTools M H F =
     [(''openPaint'', \<lambda>params. openPaint_execute F),
      (''setupBrush'', setupBrush_execute M F),
      (''drawShape'', drawShape_execute M F),
      (''captureArtwork'', captureArtwork_execute M H F),
      (''analyzeArtwork'', analyzeArtwork_execute M H)]"

definition object_prototype :: "string list" where
  "object_prototype =
     [''constructor'', ''hasOwnProperty'', ''isPrototypeOf'', ''propertyIsEnumerable'',
      ''toLocaleString'', ''toString'', ''valueOf'', ''__proto__'',
      ''__defineGetter__'', ''__defineSetter__'', ''__lookupGetter__'', ''__lookupSetter__'']"

datatype 'a slot = Own 'a | Inherited | Absent

definition lookup :: "(string \<times> 'a) list \<Rightarrow> string \<Rightarrow> 'a slot" where
  "lookup obj k = (case map_of obj k of
       Some v \<Rightarrow> Own v
     | None \<Rightarrow> if k \<in> set object_prototype then Inherited else Absent)"

text \<open>
  \<open>testTool\<close>. An inherited property is truthy and has no \<open>execute\<close>, so the call in the
  \<open>try\<close> block throws a TypeError, which the \<open>catch\<close> reports.
\<close>

definition testTool ::
  "'n numbers \<Rightarrow> ('w, 'n) hostenv \<Rightarrow> ('w, 'n) facade \<Rightarrow> string \<Rightarrow> 'n props \<Rightarrow> ('w, 'n jsval) io" where
  "testTool M H F toolName params =
     bnd (print (Blue, ''\<newline>Testing '' @ toolName @ ''...'')) (\<lambda>_.
     let failed = (\<lambda>error. bnd (print (Red, ''Tool execution failed: '' @ error)) (\<lambda>_.
                            ret (failure error)))
     in case lookup (artistTools M H F) toolName of
       Absent \<Rightarrow> bnd (print (Red, ''Tool '' @ toolName @ '' not found'')) (\<lambda>_. ret Undefined)
     | Inherited \<Rightarrow>
         try_catch (throw ''artistTools[toolName].execute is not a function'') failed
     | Own execute \<Rightarrow>
         try_catch
           (bnd (execute params) (\<lambda>result.
            bnd (read_prop result ''success'') (\<lambda>ok.
            bnd (if truthy ok then
                   bnd (print (Green, to_string M (get_prop result ''message''))) (\<lambda>_.
                   if truthy (get_prop result ''analysis'')
                   then print (Cyan, ''\<newline>Analysis:\<newline>''
                                       @ to_string M (get_prop result ''analysis''))
                   else ret ())
                 else print (Red, to_string M (get_prop result ''error''))) (\<lambda>_.
            ret result))))
           failed)"

subsection \<open>The agent turn and the command line of vision-artist.js\<close>

text \<open>The body of the loop of \<open>createVerifiedArtwork\<close> over the tool calls.\<close>

definition artist_show :: "'n numbers \<Rightarrow> ('w, 'n) hostenv \<Rightarrow> 'n jsval \<Rightarrow> ('w, unit) io" where
  "artist_show M H toolCall =
     bnd (read_prop toolCall ''result'') (\<lambda>result.
     bnd (read_prop result ''success'') (\<lambda>ok.
     if truthy ok then
       bnd (print (Green, ''\<newline>'' @ to_string M (get_prop result ''message''))) (\<lambda>_.
       bnd (if truthy (get_prop result ''app'')
            then print (Gray, ''App: '' @ to_string M (get_prop (get_prop result ''app'') ''name'')
                         @ '' ('' @ to_string M (get_prop (get_prop result ''app'') ''role'') @ '')'')
            else ret ()) (\<lambda>_.
       bnd (if truthy (get_prop result ''settings'')
            then print (Gray, ''Settings: '' @ stringify H (get_prop result ''settings''))
            else ret ()) (\<lambda>_.
       bnd (if truthy (get_prop result ''drawing'')
            then print (Gray, ''Drawing: ''
                         @ to_string M (get_prop (get_prop result ''drawing'') ''shape'') @ '' at (''
                         @ to_string M (get_prop (get_prop result ''drawing'') ''x'') @ '', ''
                         @ to_string M (get_prop (get_prop result ''drawing'') ''y'') @ '')'')
            else ret ()) (\<lambda>_.
       bnd (if truthy (get_prop result ''capture'')
            then print (Gray, ''Capture: ''
                         @ to_string M (get_prop (get_prop result ''capture'') ''filename'') @ '' (''
                         @ to_string M (get_prop (get_prop result ''capture'') ''size'') @ '')'')
            else ret ()) (\<lambda>_.
       if truthy (get_prop result ''analysis'')
       then bnd (print (Cyan, ''\<newline>VISION ANALYSIS:'')) (\<lambda>_.
            print (White, to_string M (get_prop result ''analysis'')))
       else ret ())))))
     else print (Red, ''\<newline>Error: '' @ to_string M (get_prop result ''error''))))"

text \<open>
  \<open>createVerifiedArtwork\<close>: the request carries the user message below (the system
  prompt and the registry are fixed by the script); the results of the tool calls are
  shown when the response holds an array of them.
\<close>

definition createVerifiedArtwork ::
  "'n numbers \<Rightarrow> ('w, 'n) hostenv \<Rightarrow> string \<Rightarrow> ('w, 'n jsval) io" where
  "createVerifiedArtwork M H description =
     bnd (print (Blue, ''\<newline>VISION AI ARTIST - CREATING: '' @ upperCase H description)) (\<lambda>_.
     bnd (print (Gray, replicate 70 (CHR ''-''))) (\<lambda>_.
     try_catch
       (bnd (print (Blue, ''\<newline>AI Artist:  { newline: false }'')) (\<lambda>_.
        bnd (host (streamText H (''Create '' @ description
               @ '' artwork in MS Paint. Follow the workflow: open paint, setup brush, ''
               @ ''draw shapes, capture and analyze each step to verify quality.''))) (\<lambda>response.
        bnd (each (\<lambda>chunk. print (Blue, chunk)) (fst response)) (\<lambda>_.
        let aiResponse = concat (fst response) in
        bnd (case snd response of
               None \<Rightarrow> ret ()
             | Some toolCalls \<Rightarrow>
                 if toolCalls \<noteq> [] then
                   bnd (print (Yellow, ''\<newline>\<newline>Executing Artist Actions:'')) (\<lambda>_.
                   bnd (each (artist_show M H) toolCalls) (\<lambda>_. ret ()))
                 else ret ()) (\<lambda>_.
        bnd (print (Green, ''\<newline>\<newline>VISION-VERIFIED ARTWORK COMPLETED!'')) (\<lambda>_.
        bnd (print (Gray, ''Theme: '' @ description)) (\<lambda>_.
        bnd (print (Gray, ''AI Response: '' @ substring0 100 aiResponse @ ''...'')) (\<lambda>_.
        ret (Obj [(''success'', Bool True), (''response'', Str aiResponse)])))))))))
       (\<lambda>error. bnd (print (Red, ''\<newline>Error during artwork creation: '' @ error)) (\<lambda>_.
                 ret (failure error)))))"

text \<open>\<open>runCommand\<close> of vision-artist.js; \<open>args\<close> is \<open>process.argv.slice(2)\<close>, not empty.\<close>

definition artist_runCommand ::
  "'n numbers \<Rightarrow> ('w, 'n) hostenv \<Rightarrow> ('w, 'n) facade \<Rightarrow> string list \<Rightarrow> ('w, unit) io" where
  "artist_runCommand M H F args =
     (let command = hd args in
      if command = ''create'' then
        bnd (createVerifiedArtwork M H
               (if join_with '' '' (tl args) = [] then ''geometric abstract art''
                else join_with '' '' (tl args))) (\<lambda>_. ret ())
      else if command = ''demo'' then
        bnd (print (Blue, ''\<newline>VISION AI ARTIST DEMO'')) (\<lambda>_.
        bnd (createVerifiedArtwork M H ''colorful composition with stars and circles'') (\<lambda>_.
        ret ()))
      else if command = ''test-paint'' then
        bnd (testTool M H F ''openPaint'' []) (\<lambda>_.
        bnd (testTool M H F ''setupBrush'' [(''size'', Str ''medium''), (''color'', Str ''red'')]) (\<lambda>_.
        ret ()))
      else if command = ''test-draw'' then
        bnd (testTool M H F ''drawShape''
               [(''shape'', Str ''star''), (''x'', Num (num M 400)), (''y'', Num (num M 300)),
                (''size'', Num (num M 60))]) (\<lambda>_. ret ())
      else if command = ''test-vision'' then
        bnd (testTool M H F ''captureArtwork'' [(''purpose'', Str ''test vision system'')]) (\<lambda>_.
        bnd (testTool M H F ''analyzeArtwork''
               [(''focus'', Str ''overall composition and colors'')]) (\<lambda>_.
        ret ()))
      else print (Red, ''Unknown command: '' @ command))"

definition artist_usage :: "line list" where
  \<open>artist_usage =
     [(Blue, ''\<newline>Vision AI Artist Agent''),
      (Gray, ''Usage examples:''),
      (White, ''  node vision-artist.js create "colorful geometric art"''),
      (White, ''  node vision-artist.js demo''),
      (White, ''  node vision-artist.js test-paint''),
      (White, ''  node vision-artist.js test-draw''),
      (White, ''  node vision-artist.js test-vision'')]\<close>

text \<open>The script vision-artist.js, once \<open>new Desktop()\<close> has returned.\<close>

definition vision_artist ::
  "'n numbers \<Rightarrow> ('w, 'n) hostenv \<Rightarrow> ('w, 'n) facade \<Rightarrow> string list \<Rightarrow> ('w, unit) io" where
  "vision_artist M H F args =
     bnd (print (Blue, ''Initializing Vision AI Artist...'')) (\<lambda>_.
     bnd (print (Green, ''Desktop automation engine initialized'')) (\<lambda>_.
     if missing args then bnd (each print artist_usage) (\<lambda>_. exit_process 0)
     else try_catch (artist_runCommand M H F args)
            (\<lambda>error. bnd (print (Red, ''Fatal error: '' @ error)) (\<lambda>_. exit_process 1))))"

section \<open>The tools of the simple vision artist\<close>

text \<open>The script that its usage text calls simple-vision-artist.js. Its four tools are
  called with literal arguments.\<close>

definition sva_openPaint_execute :: "('w, 'n) facade \<Rightarrow> ('w, 'n jsval) io" where
  "sva_openPaint_execute F =
     try_catch
       (bnd (print (Yellow, ''Opening Paint...'')) (\<lambda>_.
        bnd (call (openApplication F ''mspaint'')) (\<lambda>_.
        bnd (sleep 2000) (\<lambda>_.
        ret (Obj [(''success'', Bool True), (''message'', Str ''Paint opened'')])))))
       (\<lambda>error. ret (failure error))"

definition drawOnCanvas_execute ::
  "'n numbers \<Rightarrow> ('w, 'n) facade \<Rightarrow> 'n \<Rightarrow> 'n \<Rightarrow> 'n \<Rightarrow> 'n \<Rightarrow> string \<Rightarrow> ('w, 'n jsval) io" where
  "drawOnCanvas_execute M F startX startY endX endY description =
     (let span = description @ '' from ('' @ show_n M startX @ '','' @ show_n M startY
                   @ '') to ('' @ show_n M endX @ '','' @ show_n M endY @ '')''
      in try_catch
       (bnd (print (Yellow, ''Drawing '' @ span @ ''...'')) (\<lambda>_.
        bnd (call (locator F ''name:Paint'')) (\<lambda>paintWindow.
        bnd (call (mouseClickAndHold F paintWindow startX startY)) (\<lambda>_.
        bnd (sleep 100) (\<lambda>_.
        bnd (call (mouseMove F paintWindow endX endY)) (\<lambda>_.
        bnd (call (mouseRelease F paintWindow)) (\<lambda>_.
        ret (Obj [(''success'', Bool True),
                  (''message'', Str (''Drew '' @ span))]))))))))
       (\<lambda>error. ret (failure error)))"

definition takeScreenshot_execute ::
  "'n numbers \<Rightarrow> ('w, 'n) hostenv \<Rightarrow> ('w, 'n) facade \<Rightarrow> string option \<Rightarrow> ('w, 'n jsval) io" where
  "takeScreenshot_execute M H F reason =
     try_catch
       (bnd (print (Yellow, ''Taking screenshot: ''
                      @ (case reason of None \<Rightarrow> ''check artwork'' | Some r \<Rightarrow> r) @ ''...'')) (\<lambda>_.
        bnd (call (captureScreen F)) (\<lambda>screenshot.
        bnd (host (now H)) (\<lambda>t.
        let filename = ''art_'' @ show_n M t @ ''.png'' in
        bnd (host (writeFile H filename (imageData screenshot))) (\<lambda>_.
        let sizeKB = size_kb M (imageData screenshot) in
        ret (Obj [(''success'', Bool True),
                  (''message'', Str (''Screenshot saved: '' @ filename @ '' (''
                                      @ show_n M sizeKB @ ''KB)'')),
                  (''filename'', Str filename),
                  (''sizeKB'', Num sizeKB)]))))))
       (\<lambda>error. ret (failure error))"

definition visionPrompt :: "string \<Rightarrow> string \<Rightarrow> string" where
  "visionPrompt question base64Image = text_lines
     [''Look at this MS Paint screenshot and answer: '' @ question,
      [],
      ''You are looking at a digital artwork created in MS Paint. Describe what you see - ''
        @ ''shapes, colors, lines, overall composition. Be specific about what was drawn and ''
        @ ''how it looks.'',
      [],
      ''[Image: data:image/png;base64,'' @ substring0 100 base64Image @ ''...]'']"

definition analyzeScreenshot_execute ::
  "('w, 'n) hostenv \<Rightarrow> string option \<Rightarrow> ('w, 'n jsval) io" where
  "analyzeScreenshot_execute H question =
     try_catch
       (bnd (print (Yellow, ''Analyzing screenshot...'')) (\<lambda>_.
        bnd (host (readdir H ''.'')) (\<lambda>files.
        let artFiles = filter (\<lambda>f. starts_with ''art_'' f \<and> ends_with ''.png'' f) files in
        if artFiles = [] then
          ret (failure ''No screenshots found. Take a screenshot first.'')
        else
          let latest = last (sort artFiles) in
          bnd (host (readFile H latest)) (\<lambda>imageData.
          bnd (host (generateText H
                 (visionPrompt (case question of None \<Rightarrow> ''What do you see in this artwork?''
                                               | Some q \<Rightarrow> q)
                               (base64 H imageData)))) (\<lambda>analysis.
          ret (Obj [(''success'', Bool True),
                    (''message'', Str ''Vision analysis complete''),
                    (''analysis'', Str analysis),
                    (''file'', Str latest)]))))))
       (\<lambda>error. ret (failure error))"

datatype 'n sva_call =
    SvaOpenPaint
  | DrawOnCanvas 'n 'n 'n 'n string
  | TakeScreenshot "string option"
  | AnalyzeScreenshot "string option"

fun sva_execute ::
  "'n numbers \<Rightarrow> ('w, 'n) hostenv \<Rightarrow> ('w, 'n) facade \<Rightarrow> 'n sva_call \<Rightarrow> ('w, 'n jsval) io" where
  "sva_execute M H F SvaOpenPaint = sva_openPaint_execute F"
| "sva_execute M H F (DrawOnCanvas startX startY endX endY description) =
     drawOnCanvas_execute M F startX startY endX endY description"
| "sva_execute M H F (TakeScreenshot reason) = takeScreenshot_execute M H F reason"
| "sva_execute M H F (AnalyzeScreenshot question) = analyzeScreenshot_execute H question"

section \<open>The tools of ai-agent.js\<close>

text \<open>
  The ten tools of the interactive agent. Their results have another shape: a success
  carries \<open>status: 'success'\<close> or only its payload, a failure is \<open>{ error: ... }\<close>, and
  no result has a \<open>success\<close> property.
\<close>

text \<open>An optional string argument: as a value, as a condition, and under \<open>||\<close>.\<close>

definition opt_value :: "string option \<Rightarrow> 'n jsval" where
  "opt_value a = (case a of None \<Rightarrow> Undefined | Some t \<Rightarrow> Str t)"

definition given :: "string option \<Rightarrow> bool" where
  "given a = (case a of None \<Rightarrow> False | Some t \<Rightarrow> t \<noteq> [])"

definition or_else :: "string option \<Rightarrow> string \<Rightarrow> string" where
  "or_else a d = (if given a then the a else d)"

definition problem :: "string \<Rightarrow> 'n jsval" where
  "problem m = Obj [(''error'', Str m)]"

definition ai_screenshot_execute ::
  "'n numbers \<Rightarrow> ('w, 'n) hostenv \<Rightarrow> ('w, 'n) facade \<Rightarrow> bool option \<Rightarrow> string option
     \<Rightarrow> ('w, 'n jsval) io" where
  "ai_screenshot_execute M H F withOCR savePath =
     try_catch
       (bnd (call (captureScreen F)) (\<lambda>screenshot.
        let result = Obj [(''status'', Str ''success''),
                          (''message'', Str ''Screenshot taken successfully''),
                          (''size'', Str (show_n M (width screenshot) @ ''x''
                                           @ show_n M (height screenshot)))] in
        bnd (if given savePath
             then bnd (host (writeFile H (the savePath) (imageData screenshot))) (\<lambda>_.
                  ret (set_prop result ''savedTo'' (Str (the savePath))))
             else ret result) (\<lambda>result.
        if (case withOCR of None \<Rightarrow> False | Some b \<Rightarrow> b) then
          bnd (call (ocrScreenshot F screenshot)) (\<lambda>ocrText.
          ret (set_prop (set_prop result ''ocrText'' (Str ocrText)) ''textLength''
                 (Num (num M (length ocrText)))))
        else ret result)))
       (\<lambda>error. ret (problem (''Screenshot failed: '' @ error)))"

definition ai_clickElement_execute ::
  "('w, 'n) facade \<Rightarrow> string \<Rightarrow> string option \<Rightarrow> ('w, 'n jsval) io" where
  "ai_clickElement_execute F selector action =
     (let act = (case action of None \<Rightarrow> ''click'' | Some a \<Rightarrow> a)
      in try_catch
       (bnd (call (locator F selector)) (\<lambda>l.
        bnd (call (loc_first F l)) (\<lambda>element.
        bnd (if act = ''click'' then call (el_click F element)
             else if act = ''doubleClick'' then call (el_doubleClick F element)
             else if act = ''rightClick'' then
               bnd (call (el_rightClick F element)) (\<lambda>_.
               ret (Obj [(''method'', Str ''rightClick''),
                         (''details'', Str ''Right clicked successfully'')]))
             else ret Undefined) (\<lambda>result.
        ret (Obj [(''status'', Str ''success''),
                  (''message'', Str (act @ '' performed successfully'')),
                  (''result'', result)])))))
       (\<lambda>error. ret (problem (''Click failed: '' @ error))))"

text \<open>\<open>xs.slice(0, n)\<close> for a whole \<open>n\<close>: a negative \<open>n\<close> counts from the end.\<close>

definition slice_to :: "int \<Rightarrow> 'a list \<Rightarrow> 'a list" where
  "slice_to n xs = (if 0 \<le> n then take (nat n) xs else take (length xs - nat (- n)) xs)"

definition ai_element_detail :: "('w, 'n) facade \<Rightarrow> element \<Rightarrow> ('w, 'n jsval) io" where
  "ai_element_detail F el =
     bnd (call (el_name F el)) (\<lambda>n.
     bnd (call (el_role F el)) (\<lambda>r.
     bnd (call (el_bounds F el)) (\<lambda>b.
     bnd (call (el_text F el 2)) (\<lambda>t.
     bnd (call (el_isVisible F el)) (\<lambda>v.
     bnd (call (el_isEnabled F el)) (\<lambda>e.
     ret (Obj [(''name'', Str (or_unknown n)), (''role'', Str r), (''bounds'', b),
               (''text'', Str t), (''visible'', Bool v), (''enabled'', Bool e)])))))))"

definition ai_findElements_execute ::
  "'n numbers \<Rightarrow> ('w, 'n) facade \<Rightarrow> string \<Rightarrow> int option \<Rightarrow> ('w, 'n jsval) io" where
  "ai_findElements_execute M F selector limit =
     try_catch
       (bnd (call (locator F selector)) (\<lambda>l.
        bnd (call (loc_all F l)) (\<lambda>elements.
        let limitedElements = slice_to (case limit of None \<Rightarrow> 10 | Some n \<Rightarrow> n) elements in
        bnd (each (ai_element_detail F) limitedElements) (\<lambda>elementDetails.
        ret (Obj [(''status'', Str ''success''),
                  (''selector'', Str selector),
                  (''count'', Num (num M (length elements))),
                  (''returned'', Num (num M (length limitedElements))),
                  (''elements'', Arr elementDetails)])))))
       (\<lambda>error. ret (problem (''Element discovery failed: '' @ error)))"

definition app_entry :: "('w, 'n) facade \<Rightarrow> element \<Rightarrow> ('w, 'n jsval) io" where
  "app_entry F app =
     bnd (call (el_name F app)) (\<lambda>n.
     bnd (call (el_role F app)) (\<lambda>r.
     bnd (call (el_bounds F app)) (\<lambda>b.
     ret (Obj [(''name'', name_value n), (''role'', Str r), (''bounds'', b)]))))"

definition ai_appControl_execute ::
  "'n numbers \<Rightarrow> ('w, 'n) facade \<Rightarrow> string \<Rightarrow> string option \<Rightarrow> ('w, 'n jsval) io" where
  "ai_appControl_execute M F action appName =
     try_catch
       (if action = ''launch'' then
          (if \<not> given appName then ret (problem ''App name required for launch'')
           else
             bnd (call (openApplication F (the appName))) (\<lambda>launchedApp.
             bnd (call (el_name F launchedApp)) (\<lambda>n.
             bnd (call (el_role F launchedApp)) (\<lambda>r.
             ret (Obj [(''status'', Str ''success''),
                       (''message'', Str (''Launched '' @ the appName)),
                       (''action'', Str ''launch''),
                       (''app'', Obj [(''name'', name_value n), (''role'', Str r)])])))))
        else if action = ''list'' then
          bnd (call (applications F)) (\<lambda>apps.
          bnd (each (app_entry F) (take 10 apps)) (\<lambda>entries.
          ret (Obj [(''status'', Str ''success''),
                    (''action'', Str ''list''),
                    (''count'', Num (num M (length apps))),
                    (''applications'', Arr entries)])))
        else if action = ''focus'' \<or> action = ''activate'' then
          (if \<not> given appName then ret (problem ''App name required for focus/activate'')
           else
             bnd (if action = ''activate'' then call (activateApplication F (the appName))
                  else bnd (call (application F (the appName))) (\<lambda>app. call (el_focus F app))) (\<lambda>_.
             ret (Obj [(''status'', Str ''success''),
                       (''message'', Str ((if action = ''activate'' then ''Activated'' else ''Focused'')
                                           @ '' '' @ the appName)),
                       (''action'', Str action)])))
        else ret (problem ''Invalid action''))
       (\<lambda>error. ret (problem (''App control failed: '' @ error)))"

text \<open>The number of pieces of \<open>t.split(/\s+/)\<close>: one more than the runs of white space.\<close>

fun space_runs :: "bool \<Rightarrow> string \<Rightarrow> nat" where
  "space_runs inside [] = 0"
| "space_runs inside (c # cs) =
     (if is_space c then (if inside then 0 else 1) + space_runs True cs
      else space_runs False cs)"

definition ai_ocrTool_execute ::
  "'n numbers \<Rightarrow> ('w, 'n) facade \<Rightarrow> string option \<Rightarrow> ('w, 'n jsval) io" where
  "ai_ocrTool_execute M F imagePath =
     try_catch
       (bnd (if given imagePath then call (ocrImagePath F (the imagePath))
             else bnd (call (captureScreen F)) (\<lambda>screenshot. call (ocrScreenshot F screenshot))) (\<lambda>ocrText.
        ret (Obj [(''status'', Str ''success''),
                  (''source'', Str (or_else imagePath ''screenshot'')),
                  (''textLength'', Num (num M (length ocrText))),
                  (''wordCount'', Num (num M (1 + space_runs False ocrText))),
                  (''text'', Str (take 1000 ocrText @ (if length ocrText > 1000 then ''...'' else []))),
                  (''fullText'', Str ocrText)])))
       (\<lambda>error. ret (problem (''OCR failed: '' @ error)))"

definition ai_textInput_execute ::
  "('w, 'n) facade \<Rightarrow> string \<Rightarrow> string option \<Rightarrow> bool option \<Rightarrow> ('w, 'n jsval) io" where
  \<open>ai_textInput_execute F text selector useClipboard =
     (let clip = (case useClipboard of None \<Rightarrow> False | Some b \<Rightarrow> b)
      in try_catch
       (bnd (if given selector
             then bnd (call (locator F (the selector))) (\<lambda>l. call (loc_first F l))
             else call (focusedElement F)) (\<lambda>element.
        bnd (call (el_typeText F element text clip)) (\<lambda>_.
        ret (Obj [(''status'', Str ''success''),
                  (''message'', Str (''Typed "'' @ substring0 50 text
                                      @ (if length text > 50 then ''...'' else []) @ ''"'')),
                  (''method'', Str (if clip then ''clipboard'' else ''keyboard'')),
                  (''target'', Str (or_else selector ''focused element''))]))))
       (\<lambda>error. ret (problem (''Text input failed: '' @ error))))\<close>

text \<open>The optional demonstration of the calculator: what the inner \<open>try\<close> has assigned
  to \<open>response\<close> stays when a later call in it throws.\<close>

definition calculator_demo :: "('w, 'n) facade \<Rightarrow> 'n jsval \<Rightarrow> ('w, 'n jsval) io" where
  "calculator_demo F response =
     (let unavailable = (\<lambda>r. ret (set_prop r ''appError'' (Str ''Could not launch Calculator app'')))
      in try_catch
           (bnd (call (openApplication F ''calc'')) (\<lambda>calcApp.
            let response = set_prop (set_prop response ''appDemo''
                                       (Str ''Calculator app launched for demonstration''))
                             ''method'' (Str ''app + programmatic'') in
            try_catch
              (bnd (call (el_name F calcApp)) (\<lambda>n.
               bnd (call (el_role F calcApp)) (\<lambda>r.
               ret (set_prop response ''app'' (Obj [(''name'', name_value n), (''role'', Str r)])))))
              (\<lambda>_. unavailable response)))
           (\<lambda>_. unavailable response))"

definition ai_calculator_execute ::
  "'n numbers \<Rightarrow> ('w, 'n) hostenv \<Rightarrow> ('w, 'n) facade \<Rightarrow> string \<Rightarrow> bool option \<Rightarrow> ('w, 'n jsval) io" where
  \<open>ai_calculator_execute M H F expression useApp =
     try_catch
       (bnd (run_text (evaluate H (''"use strict"; return ('' @ expression @ '')''))) (\<lambda>result.
        bnd (toString M result) (\<lambda>str.
        let response = Obj [(''result'', Str str), (''expression'', Str expression),
                            (''method'', Str ''programmatic'')] in
        if (case useApp of None \<Rightarrow> False | Some b \<Rightarrow> b) then calculator_demo F response
        else ret response)))
       (\<lambda>error. ret (Obj [(''error'', Str ''Invalid mathematical expression''),
                           (''expression'', Str expression)]))\<close>

definition ai_fileManager_execute ::
  "('w, 'n) hostenv \<Rightarrow> ('w, 'n) facade \<Rightarrow> string \<Rightarrow> string option \<Rightarrow> string option \<Rightarrow> string option
     \<Rightarrow> ('w, 'n jsval) io" where
  "ai_fileManager_execute H F action filepath content directory =
     try_catch
       (if action = ''read'' then
          (if \<not> given filepath then ret (problem ''Filepath required for read action'')
           else bnd (host (readFileText H (the filepath))) (\<lambda>fileContent.
                ret (Obj [(''action'', Str ''read''), (''filepath'', Str (the filepath)),
                          (''content'', Str fileContent)])))
        else if action = ''write'' then
          (if \<not> given filepath \<or> \<not> given content
           then ret (problem ''Filepath and content required for write action'')
           else bnd (host (writeFileText H (the filepath) (the content))) (\<lambda>_.
                ret (Obj [(''action'', Str ''write''), (''filepath'', Str (the filepath)),
                          (''message'', Str ''File written successfully'')])))
        else if action = ''list'' then
          bnd (host (readdir H (or_else directory ''.''))) (\<lambda>files.
          ret (Obj [(''action'', Str ''list''), (''directory'', Str (or_else directory ''.'')),
                    (''files'', Arr (map Str files))]))
        else if action = ''open'' then
          (if \<not> given filepath then ret (problem ''Filepath required for open action'')
           else bnd (call (openFile F (the filepath))) (\<lambda>_.
                ret (Obj [(''action'', Str ''open''), (''filepath'', Str (the filepath)),
                          (''message'', Str ''File opened with default application'')])))
        else ret (problem ''Invalid action''))
       (\<lambda>error. ret (Obj [(''error'', Str error), (''action'', Str action)]))"

definition ai_webTool_execute ::
  "('w, 'n) facade \<Rightarrow> string \<Rightarrow> string option \<Rightarrow> string option \<Rightarrow> ('w, 'n jsval) io" where
  "ai_webTool_execute F action url browser =
     try_catch
       (if action = ''open'' then
          (if \<not> given url then ret (problem ''URL required for open action'')
           else bnd (call (openUrl F (the url) browser)) (\<lambda>_.
                ret (Obj [(''action'', Str ''open''), (''url'', Str (the url)),
                          (''browser'', Str (or_else browser ''default'')),
                          (''message'', Str ''URL opened in browser'')])))
        else if action = ''getCurrentBrowser'' then
          bnd (call (getCurrentBrowserWindow F)) (\<lambda>browserWindow.
          bnd (call (el_name F browserWindow)) (\<lambda>n.
          bnd (call (el_role F browserWindow)) (\<lambda>r.
          bnd (call (el_bounds F browserWindow)) (\<lambda>b.
          bnd (call (el_text F browserWindow 1)) (\<lambda>t.
          ret (Obj [(''action'', Str ''getCurrentBrowser''),
                    (''browser'', Obj [(''name'', name_value n), (''role'', Str r),
                                       (''bounds'', b), (''text'', Str t)])]))))))
        else ret (problem ''Invalid action''))
       (\<lambda>error. ret (Obj [(''error'', Str (''Web tool failed: '' @ error)),
                           (''action'', Str action)]))"

definition ai_commandRunner_execute ::
  "('w, 'n) facade \<Rightarrow> string option \<Rightarrow> string option \<Rightarrow> ('w, 'n jsval) io" where
  "ai_commandRunner_execute F windowsCommand unixCommand =
     try_catch
       (bnd (call (runCommand F windowsCommand unixCommand)) (\<lambda>commandOutput.
        ret (Obj [(''status'', Str ''success''),
                  (''exitStatus'', status_value (exitStatus commandOutput)),
                  (''stdout'', Str (stdout commandOutput)),
                  (''stderr'', Str (stderr commandOutput)),
                  (''command'', Obj [(''windows'', opt_value windowsCommand),
                                     (''unix'', opt_value unixCommand)])])))
       (\<lambda>error. ret (problem (''Command execution failed: '' @ error)))"

datatype ai_call =
    AiScreenshot "bool option" "string option"
  | AiClickElement string "string option"
  | AiFindElements string "int option"
  | AiAppControl string "string option"
  | AiOcrTool "string option"
  | AiTextInput string "string option" "bool option"
  | AiCalculator string "bool option"
  | AiFileManager string "string option" "string option" "string option"
  | AiWebTool string "string option" "string option"
  | AiCommandRunner "string option" "string option"

fun ai_execute ::
  "'n numbers \<Rightarrow> ('w, 'n) hostenv \<Rightarrow> ('w, 'n) facade \<Rightarrow> ai_call \<Rightarrow> ('w, 'n jsval) io" where
  "ai_execute M H F (AiScreenshot withOCR savePath) = ai_screenshot_execute M H F withOCR savePath"
| "ai_execute M H F (AiClickElement selector action) = ai_clickElement_execute F selector action"
| "ai_execute M H F (AiFindElements selector limit) = ai_findElements_execute M F selector limit"
| "ai_execute M H F (AiAppControl action appName) = ai_appControl_execute M F action appName"
| "ai_execute M H F (AiOcrTool imagePath) = ai_ocrTool_execute M F imagePath"
| "ai_execute M H F (AiTextInput t selector useClipboard) =
     ai_textInput_execute F t selector useClipboard"
| "ai_execute M H F (AiCalculator expression useApp) = ai_calculator_execute M H F expression useApp"
| "ai_execute M H F (AiFileManager action filepath content directory) =
     ai_fileManager_execute H F action filepath content directory"
| "ai_execute M H F (AiWebTool action url browser) = ai_webTool_execute F action url browser"
| "ai_execute M H F (AiCommandRunner windowsCommand unixCommand) =
     ai_commandRunner_execute F windowsCommand unixCommand"

section \<open>The command loop of ai-agent.js\<close>

text \<open>
  \<open>commands\<close> is an object literal with fifteen own keys. The handlers print through
  spinners and boxes and are not modelled: the registry is a parameter whose keys are
  \<open>command_names\<close>, and one pass of the loop of \<open>main\<close> is defined for any handlers.
\<close>

definition command_names :: "string list" where
  "command_names =
     [''help'', ''screenshot'', ''click'', ''find'', ''app'', ''ocr'', ''type'', ''calc'',
      ''files'', ''web'', ''run'', ''think'', ''history'', ''clear'', ''chat'']"

text \<open>\<open>t.split(c)\<close> for a separator of one character.\<close>

fun split_on :: "char \<Rightarrow> string \<Rightarrow> string list" where
  "split_on c [] = [[]]"
| "split_on c (x # xs) =
     (if x = c then [] # split_on c xs
      else (case split_on c xs of [] \<Rightarrow> [[x]] | p # ps \<Rightarrow> (x # p) # ps))"

text \<open>
  Calling a property that \<open>commands\<close> inherits: \<open>__proto__\<close> is not a function, the two
  \<open>__define...__\<close> methods reject arguments that are not functions, and the other
  methods of \<open>Object.prototype\<close> return without printing.
\<close>

definition call_inherited :: "string \<Rightarrow> ('w, unit) io" where
  "call_inherited k =
     (if k \<in> set [''__proto__'', ''__defineGetter__'', ''__defineSetter__'']
      then throw ''TypeError'' else ret ())"

text \<open>One pass of the loop, for the line the user typed at the prompt.\<close>

definition agent_step ::
  "(string \<times> (string list \<Rightarrow> ('w, unit) io)) list \<Rightarrow> string \<Rightarrow> ('w, unit) io" where
  \<open>agent_step commands command =
     (let parts = split_on (CHR '' '') (trim command);
          cmd = hd parts;
          args = tl parts
      in if cmd = ''exit'' then
           bnd (print (Green, ''\<newline>Goodbye! Thanks for using the AI Agent!'')) (\<lambda>_.
           exit_process 0)
         else case lookup commands cmd of
           Own handler \<Rightarrow> handler args
         | Inherited \<Rightarrow> call_inherited cmd
         | Absent \<Rightarrow>
             if cmd \<noteq> [] then
               bnd (print (Red, ''Unknown command: '' @ cmd)) (\<lambda>_.
               print (Gray, ''Type "help" for available commands''))
             else ret ())\<close>

text \<open>The pass under the handler that \<open>main().catch\<close> installs.\<close>

definition agent_turn ::
  "(string \<times> (string list \<Rightarrow> ('w, unit) io)) list \<Rightarrow> string \<Rightarrow> ('w, unit) io" where
  "agent_turn commands command =
     try_catch (agent_step commands command)
       (\<lambda>error. bnd (print (Red, ''Fatal error: '' @ error)) (\<lambda>_. exit_process 1))"

section \<open>The steps of working-artist.js\<close>

text \<open>
  The script runs its four steps as plain functions: each catches what its block throws,
  prints the failure and hands back \<open>false\<close> or \<open>null\<close>. It calls \<open>openApplication\<close> and
  the three gestures without \<open>await\<close>; as everywhere in this theory, a method of the facade
  is taken to finish within its call.
\<close>

definition wa_openPaint :: "('w, 'n) facade \<Rightarrow> ('w, bool) io" where
  "wa_openPaint F =
     try_catch
       (bnd (print (Yellow, ''Opening Paint...'')) (\<lambda>_.
        bnd (call (openApplication F ''mspaint'')) (\<lambda>_.
        bnd (sleep 3000) (\<lambda>_.
        bnd (print (Green, ''Paint opened'')) (\<lambda>_.
        ret True)))))
       (\<lambda>error. bnd (print (Red, ''Failed to open Paint: '' @ error)) (\<lambda>_. ret False))"

definition drawSomething ::
  "'n numbers \<Rightarrow> ('w, 'n) facade \<Rightarrow> 'n \<Rightarrow> 'n \<Rightarrow> 'n \<Rightarrow> 'n \<Rightarrow> string \<Rightarrow> ('w, bool) io" where
  "drawSomething M F x1 y1 x2 y2 description =
     try_catch
       (bnd (print (Yellow, ''Drawing '' @ description @ '' from ('' @ show_n M x1 @ '',''
                      @ show_n M y1 @ '') to ('' @ show_n M x2 @ '','' @ show_n M y2
                      @ '')...'')) (\<lambda>_.
        bnd (call (locator F ''name:Paint'')) (\<lambda>paintWindow.
        bnd (call (mouseClickAndHold F paintWindow x1 y1)) (\<lambda>_.
        bnd (sleep 100) (\<lambda>_.
        bnd (call (mouseMove F paintWindow x2 y2)) (\<lambda>_.
        bnd (call (mouseRelease F paintWindow)) (\<lambda>_.
        bnd (print (Green, ''Drew '' @ description)) (\<lambda>_.
        ret True))))))))
       (\<lambda>error. bnd (print (Red, ''Failed to draw: '' @ error)) (\<lambda>_. ret False))"

text \<open>The file name, or \<open>None\<close> for \<open>null\<close>.\<close>

definition wa_takeScreenshot ::
  "'n numbers \<Rightarrow> ('w, 'n) hostenv \<Rightarrow> ('w, 'n) facade \<Rightarrow> ('w, string option) io" where
  "wa_takeScreenshot M H F =
     try_catch
       (bnd (print (Yellow, ''Taking screenshot...'')) (\<lambda>_.
        bnd (call (captureScreen F)) (\<lambda>screenshot.
        bnd (host (now H)) (\<lambda>t.
        let filename = ''artwork_'' @ show_n M t @ ''.png'' in
        bnd (host (writeFile H filename (imageData screenshot))) (\<lambda>_.
        let sizeKB = size_kb M (imageData screenshot) in
        bnd (print (Green, ''Screenshot saved: '' @ filename @ '' ('' @ show_n M sizeKB
                             @ ''KB)'')) (\<lambda>_.
        ret (Some filename)))))))
       (\<lambda>error. bnd (print (Red, ''Failed to take screenshot: '' @ error)) (\<lambda>_. ret None))"

definition wa_prompt :: "string \<Rightarrow> string" where
  "wa_prompt base64Image = text_lines
     [''Look at this MS Paint screenshot. What do you see? Describe the artwork, shapes, ''
        @ ''colors, and overall composition.'',
      [],
      ''Be specific about what was drawn and how it looks.'',
      [],
      ''[Image: data:image/png;base64,'' @ substring0 100 base64Image @ ''...]'']"

text \<open>The text of the analysis, or \<open>None\<close> for \<open>null\<close>.\<close>

definition wa_analyzeArtwork :: "('w, 'n) hostenv \<Rightarrow> string \<Rightarrow> ('w, string option) io" where
  "wa_analyzeArtwork H filename =
     try_catch
       (bnd (print (Yellow, ''Analyzing artwork with AI...'')) (\<lambda>_.
        bnd (host (readFile H filename)) (\<lambda>imageData.
        bnd (host (generateText H (wa_prompt (base64 H imageData)))) (\<lambda>analysis.
        bnd (print (Cyan, ''\<newline>AI Vision Analysis:'')) (\<lambda>_.
        bnd (print (White, analysis)) (\<lambda>_.
        ret (Some analysis)))))))
       (\<lambda>error. bnd (print (Red, ''Failed to analyze: '' @ error)) (\<lambda>_. ret None))"

text \<open>\<open>t.includes(p)\<close>\<close>

fun contains :: "string \<Rightarrow> string \<Rightarrow> bool" where
  "contains p [] = (p = [])"
| "contains p (c # cs) = (starts_with p (c # cs) \<or> contains p cs)"

text \<open>
  Step 2 of \<open>createArt\<close>: the drawing chosen by the description. For a star the four
  strokes are drawn one after the other, and the flag \<open>drawn\<close> is that of the first.
\<close>

definition drawing :: "'n numbers \<Rightarrow> ('w, 'n) facade \<Rightarrow> string \<Rightarrow> ('w, bool) io" where
  "drawing M F description =
     (if contains ''circle'' description then
        drawSomething M F (num M 300) (num M 200) (num M 400) (num M 300) ''circle shape''
      else if contains ''star'' description then
        bnd (drawSomething M F (num M 350) (num M 150) (num M 350) (num M 350)
               ''vertical line for star'') (\<lambda>drawn.
        bnd (drawSomething M F (num M 200) (num M 250) (num M 500) (num M 250)
               ''horizontal line for star'') (\<lambda>_.
        bnd (drawSomething M F (num M 250) (num M 180) (num M 450) (num M 320)
               ''diagonal line 1 for star'') (\<lambda>_.
        bnd (drawSomething M F (num M 450) (num M 180) (num M 250) (num M 320)
               ''diagonal line 2 for star'') (\<lambda>_.
        ret drawn))))
      else if contains ''line'' description then
        drawSomething M F (num M 200) (num M 300) (num M 600) (num M 300) ''horizontal line''
      else
        drawSomething M F (num M 300) (num M 200) (num M 500) (num M 400) ''simple shape'')"

text \<open>\<open>createArt\<close>: a step that hands back \<open>false\<close> or \<open>null\<close> ends the workflow, which then
  returns \<open>undefined\<close>.\<close>

definition createArt ::
  "'n numbers \<Rightarrow> ('w, 'n) hostenv \<Rightarrow> ('w, 'n) facade \<Rightarrow> string \<Rightarrow> ('w, 'n jsval) io" where
  "createArt M H F description =
     bnd (print (Blue, ''\<newline>Creating: '' @ description)) (\<lambda>_.
     bnd (print (Gray, replicate 50 (CHR ''-''))) (\<lambda>_.
     bnd (wa_openPaint F) (\<lambda>paintOpened.
     if \<not> paintOpened then ret Undefined
     else
       bnd (drawing M F description) (\<lambda>drawn.
       if \<not> drawn then ret Undefined
       else
         bnd (wa_takeScreenshot M H F) (\<lambda>filename.
         if \<not> given filename then ret Undefined
         else
           bnd (wa_analyzeArtwork H (the filename)) (\<lambda>analysis.
           bnd (print (Green, ''\<newline>Artwork creation complete!'')) (\<lambda>_.
           bnd (print (Gray, ''Screenshot: '' @ the filename)) (\<lambda>_.
           ret (Obj [(''filename'', Str (the filename)),
                     (''analysis'', name_value analysis)])))))))))"

definition wa_usage :: "line list" where
  "wa_usage =
     [(Blue, ''\<newline>Working Vision Artist''),
      (Gray, ''Commands:''),
      (White, ''  node working-artist.js test    # Test all functions''),
      (White, ''  node working-artist.js circle  # Draw a circle''),
      (White, ''  node working-artist.js star    # Draw a star''),
      (White, ''  node working-artist.js line    # Draw a line'')]"

text \<open>The script working-artist.js, once \<open>new Desktop()\<close> has returned; \<open>args\<close> is
  \<open>process.argv.slice(2)\<close>.\<close>

definition working_artist ::
  "'n numbers \<Rightarrow> ('w, 'n) hostenv \<Rightarrow> ('w, 'n) facade \<Rightarrow> string list \<Rightarrow> ('w, unit) io" where
  "working_artist M H F args =
     bnd (print (Blue, ''Working Vision Artist'')) (\<lambda>_.
     if args \<noteq> [] \<and> hd args = ''test'' then
       bnd (print (Blue, ''\<newline>Testing each step...'')) (\<lambda>_.
       bnd (print (Plain, ''\<newline>1. Testing Paint opening...'')) (\<lambda>_.
       bnd (wa_openPaint F) (\<lambda>_.
       bnd (print (Plain, ''\<newline>2. Testing drawing...'')) (\<lambda>_.
       bnd (drawSomething M F (num M 300) (num M 200) (num M 500) (num M 300) ''test line'') (\<lambda>_.
       bnd (print (Plain, ''\<newline>3. Testing screenshot...'')) (\<lambda>_.
       bnd (wa_takeScreenshot M H F) (\<lambda>filename.
       bnd (if given filename then
              bnd (print (Plain, ''\<newline>4. Testing AI analysis...'')) (\<lambda>_.
              bnd (wa_analyzeArtwork H (the filename)) (\<lambda>_. ret ()))
            else ret ()) (\<lambda>_.
       print (Green, ''\<newline>All tests complete!'')))))))))
     else if args \<noteq> [] \<and> hd args = ''circle'' then
       bnd (createArt M H F ''draw a circle'') (\<lambda>_. ret ())
     else if args \<noteq> [] \<and> hd args = ''star'' then
       bnd (createArt M H F ''draw a star'') (\<lambda>_. ret ())
     else if args \<noteq> [] \<and> hd args = ''line'' then
       bnd (createArt M H F ''draw a line'') (\<lambda>_. ret ())
     else bnd (each print wa_usage) (\<lambda>_. ret ()))"

section \<open>Predicates for the statements\<close>

text \<open>A value that is a string.\<close>

fun is_text :: "'n jsval \<Rightarrow> bool" where
  "is_text (Str t) = True"
| "is_text _ = False"

text \<open>
  The two shapes of a tool result: a success with a message and no \<open>error\<close> property, a
  failure with an error string and no \<open>message\<close> property.
\<close>

definition success_shape :: "'n jsval \<Rightarrow> bool" where
  "success_shape r =
     (get_prop r ''success'' = Bool True \<and> is_text (get_prop r ''message'')
      \<and> \<not> has_prop r ''error'')"

definition failure_shape :: "'n jsval \<Rightarrow> bool" where
  "failure_shape r =
     (get_prop r ''success'' = Bool False \<and> is_text (get_prop r ''error'')
      \<and> \<not> has_prop r ''message'')"

text \<open>
  A piece of code is \<open>tidy\<close> when the history of facade throws tells how it ended: it
  grows by the message of the facade call that just threw, and only then; whatever else
  is thrown (by the host, by the evaluated text, by the script itself) leaves it as it
  was.
\<close>

definition tidy :: "('w, 'a) io \<Rightarrow> bool" where
  "tidy c = (\<forall>s. case c s of
       (Thrown m, s') \<Rightarrow> faults s' = faults s \<or> faults s' = faults s @ [m]
     | (out, s') \<Rightarrow> faults s' = faults s)"

text \<open>A piece of code is \<open>quiet\<close> when it returns or throws: it neither ends the process
  nor stays in it for ever.\<close>

definition quiet :: "('w, 'a) io \<Rightarrow> bool" where
  "quiet c = (\<forall>s. (\<exists>x s'. c s = (Ok x, s')) \<or> (\<exists>m s'. c s = (Thrown m, s')))"

text \<open>A piece of code is \<open>safe\<close> when it always returns.\<close>

definition safe :: "('w, 'a) io \<Rightarrow> bool" where
  "safe c = (\<forall>s. \<exists>x s'. c s = (Ok x, s'))"

text \<open>The text that the \<open>catch\<close> block of a tool of ai-agent.js puts before the message.\<close>

fun failure_prefix :: "ai_call \<Rightarrow> string" where
  "failure_prefix (AiScreenshot withOCR savePath) = ''Screenshot failed: ''"
| "failure_prefix (AiClickElement selector action) = ''Click failed: ''"
| "failure_prefix (AiFindElements selector limit) = ''Element discovery failed: ''"
| "failure_prefix (AiAppControl action appName) = ''App control failed: ''"
| "failure_prefix (AiOcrTool imagePath) = ''OCR failed: ''"
| "failure_prefix (AiTextInput t selector useClipboard) = ''Text input failed: ''"
| "failure_prefix (AiCalculator expression useApp) = []"
| "failure_prefix (AiFileManager action filepath content directory) = []"
| "failure_prefix (AiWebTool action url browser) = ''Web tool failed: ''"
| "failure_prefix (AiCommandRunner windowsCommand unixCommand) = ''Command execution failed: ''"

text \<open>The object that setupBrush returns at the end of its \<open>try\<close> block.\<close>

definition brush_result :: "'n numbers \<Rightarrow> 'n props \<Rightarrow> 'n jsval" where
  "brush_result M params =
     Obj [(''success'', Bool True),
          (''message'', Str (''Brush configured: ''
             @ to_string M (arg_default params ''size'' (Str ''medium'')) @ '' ''
             @ to_string M (arg_default params ''color'' (Str ''black'')) @ '' brush ready!'')),
          (''settings'', Obj [(''size'', arg_default params ''size'' (Str ''medium'')),
                              (''color'', arg_default params ''color'' (Str ''black''))])]"

text \<open>The object that drawShape returns at the end of its \<open>try\<close> block.\<close>

definition drawn_result :: "'n numbers \<Rightarrow> 'n props \<Rightarrow> 'n jsval" where
  "drawn_result M params =
     Obj [(''success'', Bool True),
          (''message'', Str (''Drew '' @ to_string M (arg params ''shape'') @ '' at position (''
             @ to_string M (arg params ''x'') @ '', '' @ to_string M (arg params ''y'')
             @ '') with size '' @ to_string M (arg params ''size''))),
          (''drawing'', Obj [(''shape'', arg params ''shape''), (''x'', arg params ''x''),
                             (''y'', arg params ''y''), (''size'', arg params ''size'')])]"

text \<open>The three canvas lookups of drawShape all throw, the last one with message \<open>m\<close>.\<close>

definition no_canvas :: "('w, 'n) facade \<Rightarrow> 'w \<Rightarrow> string \<Rightarrow> bool" where
  "no_canvas F w m =
     (case locator F ''name:Canvas'' w of
        (Inr l, w1) \<Rightarrow> False
      | (Inl m1, w1) \<Rightarrow>
          (case locator F ''className:MSPaintView'' w1 of
             (Inr l, w2) \<Rightarrow> False
           | (Inl m2, w2) \<Rightarrow>
               (case locator F ''name:Paint'' w2 of
                  (Inr l, w3) \<Rightarrow> False
                | (Inl m3, w3) \<Rightarrow> m3 = m)))"

text \<open>Some canvas lookup of drawShape returns.\<close>

definition some_canvas :: "('w, 'n) facade \<Rightarrow> 'w \<Rightarrow> bool" where
  "some_canvas F w =
     (case locator F ''name:Canvas'' w of
        (Inr l, w1) \<Rightarrow> True
      | (Inl m1, w1) \<Rightarrow>
          (case locator F ''className:MSPaintView'' w1 of
             (Inr l, w2) \<Rightarrow> True
           | (Inl m2, w2) \<Rightarrow>
               (case locator F ''name:Paint'' w2 of
                  (Inr l, w3) \<Rightarrow> True
                | (Inl m3, w3) \<Rightarrow> False)))"

text \<open>The arguments with which runCommand hands a command to the facade.\<close>

definition command_run :: "('w, 'n) hostenv \<Rightarrow> ('w, 'n) facade \<Rightarrow> string \<Rightarrow> ('w, 'n command_output) extern" where
  "command_run H F command =
     runCommand F (if platform H = ''win32'' then Some command else None)
                  (if platform H \<noteq> ''win32'' then Some command else None)"

text \<open>The shape of a success of runCommand for the output \<open>out\<close> of the command: the
  \<open>error\<close> property holds the standard error output.\<close>

definition stderr_shape :: "'n command_output \<Rightarrow> 'n jsval \<Rightarrow> bool" where
  "stderr_shape out r =
     (get_prop r ''success'' = Bool True \<and> is_text (get_prop r ''message'')
      \<and> get_prop r ''error'' = Str (stderr out))"

text \<open>The shape of a result of ai-agent.js: no \<open>success\<close> property; an \<open>error\<close> property,
  when there is one, holds a string, and the result then has no \<open>message\<close> property.\<close>

definition status_shape :: "'n jsval \<Rightarrow> bool" where
  "status_shape r =
     (\<not> has_prop r ''success''
      \<and> (has_prop r ''error'' \<longrightarrow> is_text (get_prop r ''error'') \<and> \<not> has_prop r ''message''))"

text \<open>Every value that a piece of code returns satisfies \<open>P\<close>.\<close>

definition yields :: "('a \<Rightarrow> bool) \<Rightarrow> ('w, 'a) io \<Rightarrow> bool" where
  "yields P c = (\<forall>s r s'. c s = (Ok r, s') \<longrightarrow> P r)"


section \<open>A desktop and a host to run the scripts on\<close>

text \<open>
  Concrete instances, on which the definitions are evaluated below. Numbers are the
  integers, printed in decimal; division truncates, and the trigonometric functions,
  the root and rounding are stand-ins (no run below depends on them).
\<close>

function decimal :: "nat \<Rightarrow> string" where
  "decimal n = (if n < 10 then [''0123456789'' ! n]
                else decimal (n div 10) @ [''0123456789'' ! (n mod 10)])"
  by pat_completeness auto
termination
  by (relation "measure id") auto

declare decimal.simps [simp del]

definition int_numbers :: "int numbers" where
  "int_numbers = \<lparr> num = int, plus_n = (+), minus_n = (-), times_n = (*), over_n = (div),
     cos_n = (\<lambda>x. 0), sin_n = (\<lambda>x. 0), sqrt_n = (\<lambda>x. 0), pow_n = (\<lambda>x y. x ^ nat y),
     pi_n = 3, round_n = (\<lambda>x. x), nan_n = 0,
     show_n = (\<lambda>i. if i < 0 then ''-'' @ decimal (nat (- i)) else decimal (nat i)) \<rparr>"

text \<open>A desktop on which every call returns: no element matches a selector, and the
  element handed out has no name.\<close>

definition blank_desktop :: "(unit, int) facade" where
  "blank_desktop = \<lparr>
     captureScreen = (\<lambda>w. (Inr \<lparr>width = 1920, height = 1080, imageData = []\<rparr>, w)),
     ocrScreenshot = (\<lambda>shot w. (Inr [], w)),
     ocrImagePath = (\<lambda>path w. (Inr [], w)),
     locator = (\<lambda>sel w. (Inr (Locator 0), w)),
     openApplication = (\<lambda>a w. (Inr (Element 0), w)),
     applications = (\<lambda>w. (Inr [], w)),
     application = (\<lambda>a w. (Inr (Element 0), w)),
     activateApplication = (\<lambda>a w. (Inr (), w)),
     focusedElement = (\<lambda>w. (Inr (Element 0), w)),
     runCommand = (\<lambda>win unix w. (Inr \<lparr>exitStatus = Some 0, stdout = [], stderr = []\<rparr>, w)),
     openFile = (\<lambda>p w. (Inr (), w)),
     openUrl = (\<lambda>u b w. (Inr (), w)),
     getCurrentBrowserWindow = (\<lambda>w. (Inr (Element 0), w)),
     loc_first = (\<lambda>l w. (Inr (Element 0), w)),
     loc_all = (\<lambda>l w. (Inr [], w)),
     loc_click = (\<lambda>l w. (Inr (), w)),
     mouseClickAndHold = (\<lambda>l x y w. (Inr (), w)),
     mouseMove = (\<lambda>l x y w. (Inr (), w)),
     mouseRelease = (\<lambda>l w. (Inr (), w)),
     el_click = (\<lambda>e w. (Inr Undefined, w)),
     el_doubleClick = (\<lambda>e w. (Inr Undefined, w)),
     el_rightClick = (\<lambda>e w. (Inr (), w)),
     el_name = (\<lambda>e w. (Inr None, w)),
     el_role = (\<lambda>e w. (Inr ''Pane'', w)),
     el_text = (\<lambda>e d w. (Inr [], w)),
     el_isVisible = (\<lambda>e w. (Inr True, w)),
     el_isEnabled = (\<lambda>e w. (Inr True, w)),
     el_bounds = (\<lambda>e w. (Inr Undefined, w)),
     el_typeText = (\<lambda>e t c w. (Inr (), w)),
     el_focus = (\<lambda>e w. (Inr (), w)) \<rparr>"

text \<open>A host with an empty working directory, whose evaluator rejects every text and
  whose model answers with no text and no tool call.\<close>

definition blank_host :: "(unit, int) hostenv" where
  "blank_host = \<lparr>
     evaluate = (\<lambda>body w. (Thrown ''SyntaxError'', w, [])),
     platform = ''linux'',
     writeFile = (\<lambda>p d w. (Inr (), w)),
     writeFileText = (\<lambda>p d w. (Inr (), w)),
     readFile = (\<lambda>p w. (Inr [], w)),
     readFileText = (\<lambda>p w. (Inr [], w)),
     readdir = (\<lambda>p w. (Inr [], w)),
     timestamp = (\<lambda>w. (Inr ''2025-01-01T00-00-00-000Z'', w)),
     now = (\<lambda>w. (Inr 1735689600000, w)),
     generateText = (\<lambda>p w. (Inr [], w)),
     streamText = (\<lambda>p w. (Inr ([], None), w)),
     base64 = (\<lambda>d. []),
     stringify = (\<lambda>v. []),
     upperCase = (\<lambda>t. t) \<rparr>"

definition start :: "unit proc" where
  "start = \<lparr>world = (), console = [], faults = []\<rparr>"

text \<open>A registry with the keys of \<open>commands\<close>, whose handlers print their own name.\<close>

definition echo_commands :: "(string \<times> (string list \<Rightarrow> (unit, unit) io)) list" where
  "echo_commands = map (\<lambda>n. (n, \<lambda>args. print (Plain, n))) command_names"

section \<open>Properties\<close>

lemmas io_defs =
  ret_def throw_def exit_process_def bnd_def try_catch_def call_def host_def run_text_def
  print_def sleep_def progress_def

subsection \<open>The calculator from the command line\<close>

text \<open>
  Claim C3. \<open>node test-agent.js calc "2+2"\<close>: when the engine's evaluator gives the Number
  four for the text the calculator hands it (a Number whose string is \<open>4\<close>), the tool
  result is \<open>{success: true, result: "4", message: "2+2 = 4"}\<close> and the process ends
  with exit code 0.
\<close>

theorem calc_two_plus_two:
  assumes \<open>evaluate H (''"use strict"; return (2+2)'') (world s) = (Ok (Num n), w', printed)\<close>
      and "show_n M n = ''4''"
  shows "returned (fst (test_agent M H F [''calc'', ''2+2''] s))
           = Some (Obj [(''success'', Bool True), (''result'', Str ''4''),
                        (''message'', Str ''2+2 = 4'')])
         \<and> exit_code (fst (test_agent M H F [''calc'', ''2+2''] s)) = Some 0"
  using assms
  by (simp add: test_agent_def executeCommand_def switch_command_def calculate_execute_def
      missing_def io_defs toString_def display_def read_prop_def when_text_def
      when_trimmed_def show_elements_def)

theorem calc_two_plus_two_witness:
  "returned (fst (test_agent int_numbers
                    (blank_host\<lparr>evaluate := (\<lambda>body w. (Ok (Num 4), w, []))\<rparr>)
                    blank_desktop [''calc'', ''2+2''] start))
     = Some (Obj [(''success'', Bool True), (''result'', Str ''4''),
                  (''message'', Str ''2+2 = 4'')])
   \<and> exit_code (fst (test_agent int_numbers
                    (blank_host\<lparr>evaluate := (\<lambda>body w. (Ok (Num 4), w, []))\<rparr>)
                    blank_desktop [''calc'', ''2+2''] start)) = Some 0"
  by (rule calc_two_plus_two [where n = 4 and w' = "()" and printed = "[]"])
     (simp_all add: blank_host_def int_numbers_def decimal.simps)

subsection \<open>A click on a selector that matches nothing\<close>

text \<open>
  Claim C4. \<open>node test-agent.js click <selector>\<close> with a selector for which the
  Automation Facade raises (in \<open>locator\<close>, in \<open>first\<close> or in \<open>click\<close>, with message \<open>m\<close>):
  the clickElement tool returns \<open>{success: false, error: m}\<close>, the script prints \<open>m\<close> in
  red as its last line, and the process ends with exit code 1.
\<close>

theorem click_missing_element:
  assumes "selector \<noteq> []"
      and "(\<exists>w1. locator F selector (world s) = (Inl m, w1))
         \<or> (\<exists>l w1 w2. locator F selector (world s) = (Inr l, w1)
               \<and> loc_first F l w1 = (Inl m, w2))
         \<or> (\<exists>l w1 el w2 w3. locator F selector (world s) = (Inr l, w1)
               \<and> loc_first F l w1 = (Inr el, w2) \<and> el_click F el w2 = (Inl m, w3))"
  shows "fst (clickElement_execute True F selector s)
           = Ok (Obj [(''success'', Bool False), (''error'', Str m)])
         \<and> exit_code (fst (test_agent M H F [''click'', selector] s)) = Some 1
         \<and> last (console (snd (test_agent M H F [''click'', selector] s))) = (Red, m)"
  using assms
  by (auto simp add: test_agent_def executeCommand_def switch_command_def
      clickElement_execute_def missing_def io_defs failure_def display_def read_prop_def
      refuse_def)

theorem click_missing_element_witness:
  "fst (clickElement_execute True
          (blank_desktop\<lparr>loc_first := (\<lambda>l w. (Inl ''Element not found'', w))\<rparr>)
          ''name:DoesNotExist'' start)
     = Ok (Obj [(''success'', Bool False), (''error'', Str ''Element not found'')])
   \<and> exit_code (fst (test_agent int_numbers blank_host
          (blank_desktop\<lparr>loc_first := (\<lambda>l w. (Inl ''Element not found'', w))\<rparr>)
          [''click'', ''name:DoesNotExist''] start)) = Some 1
   \<and> last (console (snd (test_agent int_numbers blank_host
          (blank_desktop\<lparr>loc_first := (\<lambda>l w. (Inl ''Element not found'', w))\<rparr>)
          [''click'', ''name:DoesNotExist''] start))) = (Red, ''Element not found'')"
  by (rule click_missing_element) (simp_all add: blank_desktop_def start_def)

subsection \<open>findElements: the empty search and the five details\<close>

text \<open>
  Claim C5. In both scripts, when the search of the selector returns the empty list
  without throwing, findElements returns a success: \<open>success\<close> is true, \<open>count\<close> is the
  Number zero and \<open>elements\<close> is the empty array.
\<close>

theorem findElements_empty:
  assumes "locator F selector (world s) = (Inr l, w1)"
      and "loc_all F l w1 = (Inr [], w2)"
  shows "fst (findElements_execute lg M F selector s)
           = Ok (Obj [(''success'', Bool True), (''count'', Num (num M 0)),
                      (''elements'', Arr []),
                      (''message'', Str (''Found '' @ show_n M (num M 0)
                                          @ '' elements matching '' @ selector))])"
  using assms
  by (simp add: findElements_execute_def io_defs)

theorem findElements_empty_witness:
  "fst (findElements_execute True int_numbers blank_desktop ''role:Button'' start)
     = Ok (Obj [(''success'', Bool True), (''count'', Num 0), (''elements'', Arr []),
                (''message'', Str ''Found 0 elements matching role:Button'')])"
  using findElements_empty [of blank_desktop "''role:Button''" start "Locator 0" "()" "()"
                               True int_numbers]
  by (simp add: blank_desktop_def start_def int_numbers_def decimal.simps)

lemma each_length: "each f xs s = (Ok ys, s') \<Longrightarrow> length ys = length xs"
proof (induction xs arbitrary: s ys s')
  case Nil
  then show ?case by (simp add: ret_def)
next
  case (Cons x xs)
  then show ?case
    by (auto simp: bnd_def ret_def split: prod.splits outcome.splits)
qed

text \<open>
  Claim C10. In both scripts, when the search returns the list \<open>elements\<close> and
  findElements reports a success, \<open>count\<close> is the Number of the full length of \<open>elements\<close>,
  and the array \<open>elements\<close> of the result has \<open>min (length elements) 5\<close> entries: the
  detail objects of the first five matches, computed in order.
\<close>

theorem findElements_truncates:
  assumes "locator F selector (world s) = (Inr l, w1)"
      and "loc_all F l w1 = (Inr elements, w2)"
      and "findElements_execute lg M F selector s = (Ok r, s')"
      and "get_prop r ''success'' = Bool True"
  shows "get_prop r ''count'' = Num (num M (length elements))
         \<and> (\<exists>details s2 s3. get_prop r ''elements'' = Arr details
               \<and> length details = min (length elements) 5
               \<and> world s2 = w2
               \<and> each (element_detail F) (take 5 elements) s2 = (Ok details, s3))"
proof -
  define s2 where "s2 = (if lg then s\<lparr>console := console s
                            @ [(Yellow, ''Searching for '' @ selector @ ''...'')]\<rparr>
                         else s)\<lparr>world := w2\<rparr>"
  obtain o3 s3 where e: "each (element_detail F) (take 5 elements) s2 = (o3, s3)"
    by (cases "each (element_detail F) (take 5 elements) s2")
  have run: "findElements_execute lg M F selector s =
        (case o3 of
           Ok details \<Rightarrow> (Ok (Obj [(''success'', Bool True),
                  (''count'', Num (num M (length elements))),
                  (''elements'', Arr details),
                  (''message'', Str (''Found '' @ show_n M (num M (length elements))
                                      @ '' elements matching '' @ selector))]), s3)
         | Thrown m \<Rightarrow> (Ok (failure m), s3)
         | Exited n \<Rightarrow> (Exited n, s3)
         | Never \<Rightarrow> (Never, s3))"
    using assms(1,2) e
    by (cases lg) (auto simp: findElements_execute_def io_defs s2_def split: outcome.splits)
  show ?thesis
  proof (cases o3)
    case (Ok details)
    with run assms(3) have r: "r = Obj [(''success'', Bool True),
                  (''count'', Num (num M (length elements))),
                  (''elements'', Arr details),
                  (''message'', Str (''Found '' @ show_n M (num M (length elements))
                                      @ '' elements matching '' @ selector))]"
      by simp
    have len: "length details = min (length elements) 5"
      using each_length [of "element_detail F" "take 5 elements" s2 details s3] e Ok by simp
    have w: "world s2 = w2" by (simp add: s2_def)
    from r len w e Ok show ?thesis by auto
  next
    case (Thrown m)
    with run assms(3,4) show ?thesis by (simp add: failure_def)
  next
    case (Exited n)
    with run assms(3) show ?thesis by simp
  next
    case Never
    with run assms(3) show ?thesis by simp
  qed
qed

theorem findElements_truncates_witness:
  "\<exists>r s'. findElements_execute False int_numbers
             (blank_desktop\<lparr>loc_all := (\<lambda>l w. (Inr (map Element [1, 2, 3, 4, 5, 6, 7]), w))\<rparr>)
             ''role:Button'' start = (Ok r, s')
     \<and> get_prop r ''success'' = Bool True
     \<and> get_prop r ''count'' = Num 7
     \<and> (\<exists>details. get_prop r ''elements'' = Arr details \<and> length details = 5)"
proof -
  let ?F = "blank_desktop\<lparr>loc_all := (\<lambda>l w. (Inr (map Element [1, 2, 3, 4, 5, 6, 7]), w))\<rparr>"
  obtain r s' where
    run: "findElements_execute False int_numbers ?F ''role:Button'' start = (Ok r, s')"
    and ok: "get_prop r ''success'' = Bool True"
    by (simp add: findElements_execute_def element_detail_def io_defs blank_desktop_def
        start_def)
  have "get_prop r ''count''
          = Num (num int_numbers (length (map Element [1, 2, 3, 4, 5, 6, 7])))
        \<and> (\<exists>details s2 s3. get_prop r ''elements'' = Arr details
              \<and> length details = min (length (map Element [1, 2, 3, 4, 5, 6, 7])) 5
              \<and> world s2 = ()
              \<and> each (element_detail ?F) (take 5 (map Element [1, 2, 3, 4, 5, 6, 7])) s2
                  = (Ok details, s3))"
    by (rule findElements_truncates [where l = "Locator 0" and ?w1.0 = "()" and s = start,
                                      OF _ _ run ok])
       (simp_all add: blank_desktop_def start_def)
  with run ok show ?thesis by (auto simp: int_numbers_def)
qed

subsection \<open>Exceptions stay inside the tools\<close>

named_theorems tidy_intros
named_theorems quiet_intros
named_theorems safe_intros

lemma tidyD:
  assumes "tidy c" and "c s = (out, s')"
  shows "faults s' = faults s \<or> (\<exists>m. out = Thrown m \<and> faults s' = faults s @ [m])"
  using assms by (cases out) (auto simp: tidy_def dest: spec [of _ s])

lemma tidyI:
  assumes "\<And>s out s'. c s = (out, s')
             \<Longrightarrow> faults s' = faults s \<or> (\<exists>m. out = Thrown m \<and> faults s' = faults s @ [m])"
  shows "tidy c"
  unfolding tidy_def
proof
  fix s
  obtain out s' where run: "c s = (out, s')" by (cases "c s")
  from assms [OF run] run
  show "case c s of
       (Thrown m, s') \<Rightarrow> faults s' = faults s \<or> faults s' = faults s @ [m]
     | (out, s') \<Rightarrow> faults s' = faults s"
    by (cases out) auto
qed

lemma tidy_ret [tidy_intros]: "tidy (ret x)"
  by (rule tidyI) (simp add: ret_def)

lemma tidy_throw [tidy_intros]: "tidy (throw m)"
  by (rule tidyI) (auto simp: throw_def)

lemma tidy_print [tidy_intros]: "tidy (print l)"
  by (rule tidyI) (auto simp: print_def)

lemma tidy_sleep [tidy_intros]: "tidy (sleep n)"
  by (simp add: sleep_def tidy_ret)

lemma tidy_progress [tidy_intros]: "tidy (progress lg t)"
  by (simp add: progress_def tidy_print tidy_ret)

lemma tidy_call [tidy_intros]: "tidy (call ex)"
  by (rule tidyI) (auto simp: call_def split: prod.splits sum.splits)

lemma tidy_host [tidy_intros]: "tidy (host ex)"
  by (rule tidyI) (auto simp: host_def split: prod.splits sum.splits)

lemma tidy_run_text [tidy_intros]: "tidy (run_text ev)"
  by (rule tidyI) (auto simp: run_text_def split: prod.splits)

lemma tidy_toString [tidy_intros]: "tidy (toString M v)"
  by (simp add: toString_def tidy_throw tidy_ret)

lemma tidy_bnd [tidy_intros]:
  assumes "tidy m" and "\<And>x. tidy (f x)"
  shows "tidy (bnd m f)"
proof (rule tidyI)
  fix s out s'
  assume run: "bnd m f s = (out, s')"
  obtain o1 s1 where m: "m s = (o1, s1)" by (cases "m s")
  show "faults s' = faults s \<or> (\<exists>e. out = Thrown e \<and> faults s' = faults s @ [e])"
  proof (cases o1)
    case (Ok x)
    with run m have f: "f x s1 = (out, s')" by (simp add: bnd_def)
    from tidyD [OF assms(1) m] Ok have "faults s1 = faults s" by auto
    with tidyD [OF assms(2) f] show ?thesis by auto
  next
    case (Thrown e)
    with run m have "out = Thrown e" and "s' = s1" by (simp_all add: bnd_def)
    with tidyD [OF assms(1) m] Thrown show ?thesis by auto
  next
    case (Exited n)
    with run m have "out = Exited n" and "s' = s1" by (simp_all add: bnd_def)
    with tidyD [OF assms(1) m] Exited show ?thesis by auto
  next
    case Never
    with run m have "out = Never" and "s' = s1" by (simp_all add: bnd_def)
    with tidyD [OF assms(1) m] Never show ?thesis by auto
  qed
qed

lemma tidy_each [tidy_intros]: "(\<And>x. tidy (f x)) \<Longrightarrow> tidy (each f xs)"
  by (induction xs) (auto intro!: tidy_ret tidy_bnd)

lemma tidy_if [tidy_intros]: "tidy a \<Longrightarrow> tidy b \<Longrightarrow> tidy (if c then a else b)"
  by simp

lemma tidy_let [tidy_intros]: "(\<And>x. tidy (f x)) \<Longrightarrow> tidy (Let v f)"
  by simp

text \<open>
  The \<open>try\<close> block of a tool under a handler that returns a result: no exception leaves
  the tool, and when a facade call threw, the tool returns what the handler makes of
  its message.
\<close>

lemma guarded:
  assumes "tidy body" and "try_catch body (\<lambda>e. ret (h e)) s = (out, s')"
  shows "(\<forall>e. out \<noteq> Thrown e)
         \<and> (faults s' \<noteq> faults s \<longrightarrow> out = Ok (h (last (faults s'))))"
proof -
  obtain o1 s1 where b: "body s = (o1, s1)" by (cases "body s")
  from tidyD [OF assms(1) b] b assms(2) show ?thesis
    by (cases o1) (auto simp: try_catch_def ret_def)
qed

lemma quietE:
  assumes "quiet c"
  obtains x s' where "c s = (Ok x, s')" | m s' where "c s = (Thrown m, s')"
  using assms unfolding quiet_def by blast

lemma quiet_ret [quiet_intros]: "quiet (ret x)"
  by (simp add: quiet_def ret_def)

lemma quiet_throw [quiet_intros]: "quiet (throw m)"
  by (simp add: quiet_def throw_def)

lemma quiet_print [quiet_intros]: "quiet (print l)"
  by (simp add: quiet_def print_def)

lemma quiet_sleep [quiet_intros]: "quiet (sleep n)"
  by (simp add: quiet_def sleep_def ret_def)

lemma quiet_call [quiet_intros]: "quiet (call ex)"
  by (auto simp: quiet_def call_def split: prod.splits sum.splits)

lemma quiet_host [quiet_intros]: "quiet (host ex)"
  by (auto simp: quiet_def host_def split: prod.splits sum.splits)

lemma quiet_toString [quiet_intros]: "quiet (toString M v)"
  by (simp add: toString_def quiet_throw quiet_ret)

lemma quiet_bnd [quiet_intros]:
  assumes "quiet m" and "\<And>x. quiet (f x)"
  shows "quiet (bnd m f)"
  unfolding quiet_def
proof
  fix s
  from assms(1) show "(\<exists>x s'. bnd m f s = (Ok x, s')) \<or> (\<exists>e s'. bnd m f s = (Thrown e, s'))"
  proof (rule quietE [where s = s])
    fix x s1
    assume m: "m s = (Ok x, s1)"
    from assms(2) [of x] show ?thesis
      by (rule quietE [where s = s1]) (use m in \<open>auto simp: bnd_def\<close>)
  next
    fix e s1
    assume "m s = (Thrown e, s1)"
    then show ?thesis by (simp add: bnd_def)
  qed
qed

lemma quiet_try_catch [quiet_intros]:
  assumes "quiet m" and "\<And>e. quiet (h e)"
  shows "quiet (try_catch m h)"
  unfolding quiet_def
proof
  fix s
  from assms(1)
  show "(\<exists>x s'. try_catch m h s = (Ok x, s')) \<or> (\<exists>e s'. try_catch m h s = (Thrown e, s'))"
  proof (rule quietE [where s = s])
    fix x s1
    assume "m s = (Ok x, s1)"
    then show ?thesis by (simp add: try_catch_def)
  next
    fix e s1
    assume m: "m s = (Thrown e, s1)"
    from assms(2) [of e] show ?thesis
      by (rule quietE [where s = s1]) (use m in \<open>auto simp: try_catch_def\<close>)
  qed
qed

lemma quiet_each [quiet_intros]: "(\<And>x. quiet (f x)) \<Longrightarrow> quiet (each f xs)"
  by (induction xs) (auto intro!: quiet_ret quiet_bnd)

lemma quiet_if [quiet_intros]: "quiet a \<Longrightarrow> quiet b \<Longrightarrow> quiet (if c then a else b)"
  by simp

lemma quiet_let [quiet_intros]: "(\<And>x. quiet (f x)) \<Longrightarrow> quiet (Let v f)"
  by simp

lemma safeD: "safe c \<Longrightarrow> \<exists>x s'. c s = (Ok x, s')"
  by (simp add: safe_def)

lemma safe_ret [safe_intros]: "safe (ret x)"
  by (simp add: safe_def ret_def)

lemma safe_print [safe_intros]: "safe (print l)"
  by (simp add: safe_def print_def)

lemma safe_sleep [safe_intros]: "safe (sleep n)"
  by (simp add: safe_def sleep_def ret_def)

lemma safe_bnd [safe_intros]:
  assumes "safe m" and "\<And>x. safe (f x)"
  shows "safe (bnd m f)"
  unfolding safe_def
proof
  fix s
  from safeD [OF assms(1)] obtain x s1 where m: "m s = (Ok x, s1)" by blast
  from safeD [OF assms(2)] obtain y s2 where "f x s1 = (Ok y, s2)" by blast
  with m show "\<exists>y s'. bnd m f s = (Ok y, s')" by (simp add: bnd_def)
qed

text \<open>A quiet block under a handler that always returns always returns.\<close>

lemma safe_try_catch [safe_intros]:
  assumes "quiet m" and "\<And>e. safe (h e)"
  shows "safe (try_catch m h)"
  unfolding safe_def
proof
  fix s
  from assms(1) show "\<exists>x s'. try_catch m h s = (Ok x, s')"
  proof (rule quietE [where s = s])
    fix x s1
    assume "m s = (Ok x, s1)"
    then show ?thesis by (simp add: try_catch_def)
  next
    fix e s1
    assume m: "m s = (Thrown e, s1)"
    from safeD [OF assms(2)] obtain y s2 where "h e s1 = (Ok y, s2)" by blast
    with m show ?thesis by (simp add: try_catch_def)
  qed
qed

lemma safe_if [safe_intros]: "safe a \<Longrightarrow> safe b \<Longrightarrow> safe (if c then a else b)"
  by simp

lemma caught:
  assumes "quiet body"
  shows "\<exists>r s'. try_catch body (\<lambda>e. ret (h e)) s = (Ok r, s')"
  by (rule safeD) (intro safe_try_catch safe_ret assms)

lemma element_detail_tidy [tidy_intros]: "tidy (element_detail F el)"
  unfolding element_detail_def by (intro tidy_intros)

lemma element_detail_quiet [quiet_intros]: "quiet (element_detail F el)"
  unfolding element_detail_def by (intro quiet_intros)

lemma screenshot_guarded:
  assumes "screenshot_execute lg M F withOCR s = (out, s')"
  shows "(\<forall>e. out \<noteq> Thrown e)
         \<and> (faults s' \<noteq> faults s \<longrightarrow> out = Ok (failure (last (faults s'))))"
  using assms unfolding screenshot_execute_def
  by (rule guarded [rotated, where h = failure]) (intro tidy_intros)

lemma clickElement_guarded:
  assumes "clickElement_execute lg F selector s = (out, s')"
  shows "(\<forall>e. out \<noteq> Thrown e)
         \<and> (faults s' \<noteq> faults s \<longrightarrow> out = Ok (failure (last (faults s'))))"
  using assms unfolding clickElement_execute_def
  by (rule guarded [rotated, where h = failure]) (intro tidy_intros)

lemma findElements_guarded:
  assumes "findElements_execute lg M F selector s = (out, s')"
  shows "(\<forall>e. out \<noteq> Thrown e)
         \<and> (faults s' \<noteq> faults s \<longrightarrow> out = Ok (failure (last (faults s'))))"
  using assms unfolding findElements_execute_def
  by (rule guarded [rotated, where h = failure]) (intro tidy_intros)

text \<open>findElements always hands back a result.\<close>

lemma findElements_returns: "\<exists>r s'. findElements_execute lg M F selector s = (Ok r, s')"
  unfolding findElements_execute_def progress_def
  by (rule caught) (intro quiet_intros)

lemma openApp_guarded:
  assumes "openApp_execute lg F appName s = (out, s')"
  shows "(\<forall>e. out \<noteq> Thrown e)
         \<and> (faults s' \<noteq> faults s \<longrightarrow> out = Ok (failure (last (faults s'))))"
  using assms unfolding openApp_execute_def
  by (rule guarded [rotated, where h = failure]) (intro tidy_intros)

lemma typeText_guarded:
  assumes "typeText_execute lg F t s = (out, s')"
  shows "(\<forall>e. out \<noteq> Thrown e)
         \<and> (faults s' \<noteq> faults s \<longrightarrow> out = Ok (failure (last (faults s'))))"
  using assms unfolding typeText_execute_def
  by (rule guarded [rotated, where h = failure]) (intro tidy_intros)

text \<open>The calculator calls no facade method; what the evaluated text does beyond
  throwing (ending the process, never returning) is what the tool does.\<close>

lemma calculate_guarded:
  assumes "calculate_execute lg M H expression s = (out, s')"
  shows "(\<forall>e. out \<noteq> Thrown e) \<and> faults s' = faults s"
  using assms
  by (cases lg)
     (auto simp: calculate_execute_def io_defs toString_def
           split: prod.splits outcome.splits if_splits)

text \<open>For instance \<open>calc 'process.exit(3)'\<close>: the process ends inside the tool, with the
  code that the text chose, and a text that never returns keeps the tool from
  returning.\<close>

lemma calculator_text_ends_the_process:
  assumes \<open>evaluate H (''"use strict"; return ('' @ expression @ '')'') (world s)
             = (Exited n, w', printed)\<close>
  shows "fst (calculate_execute lg M H expression s) = Exited n"
    and "fst (ai_calculator_execute M H F expression useApp s) = Exited n"
    and "expression \<noteq> []
           \<Longrightarrow> exit_code (fst (test_agent M H F [''calc'', expression] s)) = Some n"
  using assms
  by (cases lg; simp add: calculate_execute_def ai_calculator_execute_def test_agent_def
        executeCommand_def switch_command_def missing_def io_defs)+

lemma calculator_text_never_returns:
  assumes \<open>evaluate H (''"use strict"; return ('' @ expression @ '')'') (world s)
             = (Never, w', printed)\<close>
  shows "fst (calculate_execute lg M H expression s) = Never"
    and "fst (ai_calculator_execute M H F expression useApp s) = Never"
  using assms
  by (cases lg; simp add: calculate_execute_def ai_calculator_execute_def io_defs)+

lemma runCommand_guarded:
  assumes "runCommand_execute lg M H F command s = (out, s')"
  shows "(\<forall>e. out \<noteq> Thrown e)
         \<and> (faults s' \<noteq> faults s \<longrightarrow> out = Ok (failure (last (faults s'))))"
  using assms unfolding runCommand_execute_def
  by (rule guarded [rotated, where h = failure]) (intro tidy_intros)

lemma agent_execute_guarded:
  assumes "agent_execute lg M H F c s = (out, s')"
  shows "(\<forall>e. out \<noteq> Thrown e)
         \<and> (faults s' \<noteq> faults s \<longrightarrow> out = Ok (failure (last (faults s'))))"
proof (cases c)
  case (Screenshot withOCR)
  with assms show ?thesis by (simp add: screenshot_guarded)
next
  case (ClickElement selector)
  with assms show ?thesis by (simp add: clickElement_guarded)
next
  case (FindElements selector)
  with assms show ?thesis by (simp add: findElements_guarded)
next
  case (OpenApp appName)
  with assms show ?thesis by (simp add: openApp_guarded)
next
  case (TypeText t)
  with assms show ?thesis by (simp add: typeText_guarded)
next
  case (Calculate expression)
  with assms calculate_guarded [of lg M H expression s out s'] show ?thesis by simp
next
  case (RunCommand command)
  with assms show ?thesis by (simp add: runCommand_guarded)
qed

lemma sva_execute_guarded:
  assumes "sva_execute M H F c s = (out, s')"
  shows "(\<forall>e. out \<noteq> Thrown e)
         \<and> (faults s' \<noteq> faults s \<longrightarrow> out = Ok (failure (last (faults s'))))"
proof (cases c)
  case SvaOpenPaint
  with assms show ?thesis
    unfolding SvaOpenPaint sva_execute.simps sva_openPaint_execute_def
    by - (erule guarded [rotated, where h = failure], intro tidy_intros)
next
  case (DrawOnCanvas x1 y1 x2 y2 d)
  with assms show ?thesis
    unfolding DrawOnCanvas sva_execute.simps drawOnCanvas_execute_def Let_def
    by - (erule guarded [rotated, where h = failure], intro tidy_intros)
next
  case (TakeScreenshot reason)
  with assms show ?thesis
    unfolding TakeScreenshot sva_execute.simps takeScreenshot_execute_def
    by - (erule guarded [rotated, where h = failure], intro tidy_intros)
next
  case (AnalyzeScreenshot question)
  with assms show ?thesis
    unfolding AnalyzeScreenshot sva_execute.simps analyzeScreenshot_execute_def
    by - (erule guarded [rotated, where h = failure], intro tidy_intros)
qed

lemma openPaint_guarded:
  assumes "openPaint_execute F s = (out, s')"
  shows "(\<forall>e. out \<noteq> Thrown e)
         \<and> (faults s' \<noteq> faults s \<longrightarrow> out = Ok (failure (last (faults s'))))"
  using assms unfolding openPaint_execute_def
  by (rule guarded [rotated, where h = failure]) (intro tidy_intros)

lemma captureArtwork_guarded:
  assumes "captureArtwork_execute M H F params s = (out, s')"
  shows "(\<forall>e. out \<noteq> Thrown e)
         \<and> (faults s' \<noteq> faults s \<longrightarrow> out = Ok (failure (last (faults s'))))"
  using assms unfolding captureArtwork_execute_def Let_def
  by (rule guarded [rotated, where h = failure]) (intro tidy_intros)

text \<open>analyzeArtwork calls no facade method.\<close>

lemma analyzeArtwork_guarded:
  assumes "analyzeArtwork_execute M H params s = (out, s')"
  shows "(\<forall>e. out \<noteq> Thrown e) \<and> faults s' = faults s"
  using assms
  by (auto simp: analyzeArtwork_execute_def Let_def io_defs split: prod.splits sum.splits if_splits)

lemma openPaint_returns: "\<exists>r s'. openPaint_execute F s = (Ok r, s')"
  unfolding openPaint_execute_def by (rule caught) (intro quiet_intros)

lemma captureArtwork_returns: "\<exists>r s'. captureArtwork_execute M H F params s = (Ok r, s')"
  unfolding captureArtwork_execute_def Let_def by (rule caught) (intro quiet_intros)

lemma analyzeArtwork_returns: "\<exists>r s'. analyzeArtwork_execute M H params s = (Ok r, s')"
  unfolding analyzeArtwork_execute_def Let_def by (rule caught) (intro quiet_intros)

text \<open>setupBrush: whatever the two attempts at the brush do, the tool returns its
  success, having printed its progress line and nothing else.\<close>

lemma setupBrush_exact:
  "\<exists>s'. setupBrush_execute M F params s = (Ok (brush_result M params), s')
     \<and> console s' = console s
          @ [(Yellow, ''Setting up brush: ''
                @ to_string M (arg_default params ''size'' (Str ''medium'')) @ '' ''
                @ to_string M (arg_default params ''color'' (Str ''black'')) @ ''...'')]"
  by (auto simp: setupBrush_execute_def select_brush_def brush_result_def Let_def io_defs
           split: prod.splits sum.splits)

lemma drawConnectedPoints_safe [safe_intros]: "safe (drawConnectedPoints M F canvas points)"
  by (cases points) (auto simp: drawConnectedPoints_def intro!: safe_intros quiet_intros)

lemma drawLine_safe [safe_intros]: "safe (drawLine M F canvas x1 y1 x2 y2)"
  unfolding drawLine_def by (intro safe_intros quiet_intros)

text \<open>drawShape once the canvas is found: the strokes handle their own throws, and the
  tool returns its success.\<close>

lemma drawShape_found:
  assumes "find_canvas F (s\<lparr>console := console s @ [l]\<rparr>) = (Ok canvas, s1)"
      and "l = (Yellow, ''Drawing '' @ to_string M (arg params ''shape'') @ '' at (''
                 @ to_string M (arg params ''x'') @ '', '' @ to_string M (arg params ''y'')
                 @ '') with size '' @ to_string M (arg params ''size'') @ ''...'')"
  shows "\<exists>s'. drawShape_execute M F params s = (Ok (drawn_result M params), s')"
proof -
  define strokes where "strokes =
    (let shape = arg params ''shape'';
         x = coordinate M (arg params ''x'');
         y = coordinate M (arg params ''y'');
         sz = coordinate M (arg params ''size'')
     in if shape = Str ''circle'' then drawCircle M F canvas x y sz
        else if shape = Str ''square'' then drawSquare M F canvas x y sz
        else if shape = Str ''star'' then drawStar M F canvas x y sz
        else if shape = Str ''heart'' then drawHeart M F canvas x y sz
        else if shape = Str ''triangle'' then drawTriangle M F canvas x y sz
        else if shape = Str ''line'' then
          drawLine M F canvas (minus_n M x (over_n M sz (num M 2))) y
                              (plus_n M x (over_n M sz (num M 2))) y
        else if shape = Str ''spiral'' then drawSpiral M F canvas x y sz
        else drawCircle M F canvas x y sz)"
  have "safe strokes"
    unfolding strokes_def Let_def drawCircle_def drawSquare_def drawStar_def drawHeart_def
      drawTriangle_def drawSpiral_def
    by (intro safe_intros)
  from safeD [OF this] obtain u s2 where "strokes s1 = (Ok u, s2)" by blast
  then show ?thesis
    using assms
    by (simp add: drawShape_execute_def drawn_result_def strokes_def Let_def bnd_def
        try_catch_def ret_def print_def)
qed

lemma drawShape_lost:
  assumes "find_canvas F (s\<lparr>console := console s @ [l]\<rparr>) = (Thrown m, s1)"
      and "l = (Yellow, ''Drawing '' @ to_string M (arg params ''shape'') @ '' at (''
                 @ to_string M (arg params ''x'') @ '', '' @ to_string M (arg params ''y'')
                 @ '') with size '' @ to_string M (arg params ''size'') @ ''...'')"
  shows "drawShape_execute M F params s = (Ok (failure m), s1)"
  using assms
  by (simp add: drawShape_execute_def Let_def bnd_def try_catch_def ret_def print_def)

lemma find_canvas_found:
  assumes "some_canvas F (world s)"
  shows "\<exists>canvas s1. find_canvas F s = (Ok canvas, s1)"
  using assms
  by (auto simp: some_canvas_def find_canvas_def try_catch_def call_def
           split: prod.splits sum.splits)

lemma find_canvas_lost:
  assumes "no_canvas F (world s) m"
  shows "\<exists>s1. find_canvas F s = (Thrown m, s1)"
  using assms
  by (auto simp: no_canvas_def find_canvas_def try_catch_def call_def
           split: prod.splits sum.splits)

lemma drawShape_exact:
  "(some_canvas F (world s)
      \<longrightarrow> fst (drawShape_execute M F params s) = Ok (drawn_result M params))
   \<and> (no_canvas F (world s) m \<longrightarrow> fst (drawShape_execute M F params s) = Ok (failure m))"
proof (intro conjI impI)
  let ?l = "(Yellow, ''Drawing '' @ to_string M (arg params ''shape'') @ '' at (''
                 @ to_string M (arg params ''x'') @ '', '' @ to_string M (arg params ''y'')
                 @ '') with size '' @ to_string M (arg params ''size'') @ ''...'')"
  let ?s0 = "s\<lparr>console := console s @ [?l]\<rparr>"
  {
    assume "some_canvas F (world s)"
    then have "some_canvas F (world ?s0)" by simp
    from find_canvas_found [OF this] obtain canvas s1
      where "find_canvas F ?s0 = (Ok canvas, s1)" by blast
    from drawShape_found [OF this refl]
    show "fst (drawShape_execute M F params s) = Ok (drawn_result M params)" by auto
  }
  {
    assume "no_canvas F (world s) m"
    then have "no_canvas F (world ?s0) m" by simp
    from find_canvas_lost [OF this] obtain s1
      where "find_canvas F ?s0 = (Thrown m, s1)" by blast
    from drawShape_lost [OF this refl]
    show "fst (drawShape_execute M F params s) = Ok (failure m)" by simp
  }
qed

lemma drawConnectedPoints_quiet [quiet_intros]: "quiet (drawConnectedPoints M F canvas points)"
  by (cases points) (auto simp: drawConnectedPoints_def intro!: quiet_intros)

lemma drawLine_quiet [quiet_intros]: "quiet (drawLine M F canvas x1 y1 x2 y2)"
  unfolding drawLine_def by (intro quiet_intros)

lemma find_canvas_quiet [quiet_intros]: "quiet (find_canvas F)"
  unfolding find_canvas_def by (intro quiet_intros)

lemma drawShape_returns: "\<exists>r s'. drawShape_execute M F params s = (Ok r, s')"
  unfolding drawShape_execute_def Let_def drawCircle_def drawSquare_def drawStar_def
    drawHeart_def drawTriangle_def drawSpiral_def
  by (rule caught) (intro quiet_intros)

lemma ai_element_detail_tidy [tidy_intros]: "tidy (ai_element_detail F el)"
  unfolding ai_element_detail_def by (intro tidy_intros)

lemma app_entry_tidy [tidy_intros]: "tidy (app_entry F app)"
  unfolding app_entry_def by (intro tidy_intros)

lemma ai_screenshot_guarded:
  assumes "ai_screenshot_execute M H F withOCR savePath s = (out, s')"
  shows "(\<forall>e. out \<noteq> Thrown e)
         \<and> (faults s' \<noteq> faults s
              \<longrightarrow> out = Ok (problem (''Screenshot failed: '' @ last (faults s'))))"
  using assms unfolding ai_screenshot_execute_def
  by (rule guarded [rotated, where h = "\<lambda>e. problem (''Screenshot failed: '' @ e)"])
     (intro tidy_intros)

lemma ai_clickElement_guarded:
  assumes "ai_clickElement_execute F selector action s = (out, s')"
  shows "(\<forall>e. out \<noteq> Thrown e)
         \<and> (faults s' \<noteq> faults s
              \<longrightarrow> out = Ok (problem (''Click failed: '' @ last (faults s'))))"
  using assms unfolding ai_clickElement_execute_def Let_def
  by (rule guarded [rotated, where h = "\<lambda>e. problem (''Click failed: '' @ e)"])
     (intro tidy_intros)

lemma ai_findElements_guarded:
  assumes "ai_findElements_execute M F selector limit s = (out, s')"
  shows "(\<forall>e. out \<noteq> Thrown e)
         \<and> (faults s' \<noteq> faults s
              \<longrightarrow> out = Ok (problem (''Element discovery failed: '' @ last (faults s'))))"
  using assms unfolding ai_findElements_execute_def
  by (rule guarded [rotated, where h = "\<lambda>e. problem (''Element discovery failed: '' @ e)"])
     (intro tidy_intros)

lemma ai_appControl_guarded:
  assumes "ai_appControl_execute M F action appName s = (out, s')"
  shows "(\<forall>e. out \<noteq> Thrown e)
         \<and> (faults s' \<noteq> faults s
              \<longrightarrow> out = Ok (problem (''App control failed: '' @ last (faults s'))))"
  using assms unfolding ai_appControl_execute_def
  by (rule guarded [rotated, where h = "\<lambda>e. problem (''App control failed: '' @ e)"])
     (intro tidy_intros)

lemma ai_ocrTool_guarded:
  assumes "ai_ocrTool_execute M F imagePath s = (out, s')"
  shows "(\<forall>e. out \<noteq> Thrown e)
         \<and> (faults s' \<noteq> faults s \<longrightarrow> out = Ok (problem (''OCR failed: '' @ last (faults s'))))"
  using assms unfolding ai_ocrTool_execute_def
  by (rule guarded [rotated, where h = "\<lambda>e. problem (''OCR failed: '' @ e)"])
     (intro tidy_intros)

lemma ai_textInput_guarded:
  assumes "ai_textInput_execute F t selector useClipboard s = (out, s')"
  shows "(\<forall>e. out \<noteq> Thrown e)
         \<and> (faults s' \<noteq> faults s
              \<longrightarrow> out = Ok (problem (''Text input failed: '' @ last (faults s'))))"
  using assms unfolding ai_textInput_execute_def Let_def
  by (rule guarded [rotated, where h = "\<lambda>e. problem (''Text input failed: '' @ e)"])
     (intro tidy_intros)

text \<open>
  The demonstration of the calculator of ai-agent.js handles the throws of its facade
  calls itself: it always returns, and when one of them threw, the response it returns
  is the one it was given with the property \<open>appError\<close> set (and the properties of the
  launch, when the launch had returned).
\<close>

lemma assign_keys: "fst ` set (assign ps k v) = insert k (fst ` set ps)"
  by (induction ps k v rule: assign.induct) (auto split: if_splits)

lemma assign_found: "map_of (assign ps k v) k = Some v"
  by (induction ps) auto

lemma calculator_demo_runs:
  assumes "\<not> has_prop response ''error''" and "\<exists>ps. response = Obj ps"
  shows "\<exists>r s'. calculator_demo F response s = (Ok r, s')
           \<and> \<not> has_prop r ''error''
           \<and> (faults s' \<noteq> faults s
                \<longrightarrow> get_prop r ''appError'' = Str ''Could not launch Calculator app'')"
proof -
  from assms obtain ps where r: "response = Obj ps" and e: "''error'' \<notin> set (map fst ps)"
    by auto
  show ?thesis
    unfolding r
    using e
    by (auto simp: calculator_demo_def Let_def io_defs assign_keys assign_found
             split: prod.splits sum.splits)
qed

lemma ai_calculator_guarded:
  fixes M :: "'n numbers"
  assumes "ai_calculator_execute M H F expression useApp s = (out, s')"
  shows "(\<forall>e. out \<noteq> Thrown e)
         \<and> (faults s' \<noteq> faults s
              \<longrightarrow> (\<exists>r. out = Ok r \<and> \<not> has_prop r ''error''
                     \<and> get_prop r ''appError'' = Str ''Could not launch Calculator app''))"
proof -
  let ?body = \<open>''"use strict"; return ('' @ expression @ '')''\<close>
  let ?failed = "Obj [(''error'', Str ''Invalid mathematical expression''),
                      (''expression'', Str expression)] :: 'n jsval"
  obtain o1 w1 printed where ev: "evaluate H ?body (world s) = (o1, w1, printed)"
    by (cases "evaluate H ?body (world s)")
  define s1 where "s1 = s\<lparr>world := w1, console := console s @ printed\<rparr>"
  have f1: "faults s1 = faults s" by (simp add: s1_def)
  show ?thesis
  proof (cases o1)
    case (Ok result)
    show ?thesis
    proof (cases "result = Undefined \<or> result = Null")
      case True
      with ev Ok assms have "out = Ok ?failed" and "s' = s1"
        by (auto simp: ai_calculator_execute_def io_defs toString_def s1_def)
      with f1 show ?thesis by simp
    next
      case False
      let ?response = "Obj [(''result'', Str (to_string M result)),
                            (''expression'', Str expression),
                            (''method'', Str ''programmatic'')]"
      show ?thesis
      proof (cases "case useApp of None \<Rightarrow> False | Some b \<Rightarrow> b")
        case True
        obtain r s2 where demo: "calculator_demo F ?response s1 = (Ok r, s2)"
          and ne: "\<not> has_prop r ''error''"
          and app: "faults s2 \<noteq> faults s1
                      \<longrightarrow> get_prop r ''appError'' = Str ''Could not launch Calculator app''"
          using calculator_demo_runs [of ?response F s1] by auto
        from ev Ok False True demo assms have "out = Ok r" and "s' = s2"
          by (auto simp: ai_calculator_execute_def io_defs toString_def s1_def Let_def)
        with ne app f1 show ?thesis by simp
      next
        case no: False
        with ev Ok False assms have "out = Ok ?response" and "s' = s1"
          by (auto simp: ai_calculator_execute_def io_defs toString_def s1_def Let_def)
        with f1 show ?thesis by simp
      qed
    qed
  next
    case (Thrown e)
    with ev assms have "out = Ok ?failed" and "s' = s1"
      by (auto simp: ai_calculator_execute_def io_defs s1_def)
    with f1 show ?thesis by simp
  next
    case (Exited n)
    with ev assms have "out = Exited n" and "s' = s1"
      by (auto simp: ai_calculator_execute_def io_defs s1_def)
    with f1 show ?thesis by simp
  next
    case Never
    with ev assms have "out = Never" and "s' = s1"
      by (auto simp: ai_calculator_execute_def io_defs s1_def)
    with f1 show ?thesis by simp
  qed
qed

lemma ai_fileManager_guarded:
  assumes "ai_fileManager_execute H F action filepath content directory s = (out, s')"
  shows "(\<forall>e. out \<noteq> Thrown e)
         \<and> (faults s' \<noteq> faults s
              \<longrightarrow> out = Ok (Obj [(''error'', Str (last (faults s'))), (''action'', Str action)]))"
  using assms unfolding ai_fileManager_execute_def
  by (rule guarded [rotated, where h = "\<lambda>e. Obj [(''error'', Str e), (''action'', Str action)]"])
     (intro tidy_intros)

lemma ai_webTool_guarded:
  assumes "ai_webTool_execute F action url browser s = (out, s')"
  shows "(\<forall>e. out \<noteq> Thrown e)
         \<and> (faults s' \<noteq> faults s
              \<longrightarrow> out = Ok (Obj [(''error'', Str (''Web tool failed: '' @ last (faults s'))),
                                 (''action'', Str action)]))"
  using assms unfolding ai_webTool_execute_def
  by (rule guarded [rotated, where h = "\<lambda>e. Obj [(''error'', Str (''Web tool failed: '' @ e)),
                                                  (''action'', Str action)]"])
     (intro tidy_intros)

lemma ai_commandRunner_guarded:
  assumes "ai_commandRunner_execute F windowsCommand unixCommand s = (out, s')"
  shows "(\<forall>e. out \<noteq> Thrown e)
         \<and> (faults s' \<noteq> faults s
              \<longrightarrow> out = Ok (problem (''Command execution failed: '' @ last (faults s'))))"
  using assms unfolding ai_commandRunner_execute_def
  by (rule guarded [rotated, where h = "\<lambda>e. problem (''Command execution failed: '' @ e)"])
     (intro tidy_intros)

lemma ai_execute_guarded:
  assumes "ai_execute M H F c s = (out, s')"
  shows "(\<forall>e. out \<noteq> Thrown e)
         \<and> (faults s' \<noteq> faults s
              \<longrightarrow> (\<exists>r. out = Ok r
                     \<and> ((\<forall>e u. c \<noteq> AiCalculator e u)
                          \<longrightarrow> get_prop r ''error''
                                = Str (failure_prefix c @ last (faults s')))
                     \<and> ((\<exists>e u. c = AiCalculator e u)
                          \<longrightarrow> \<not> has_prop r ''error''
                              \<and> get_prop r ''appError''
                                  = Str ''Could not launch Calculator app'')))"
proof (cases c)
  case (AiScreenshot withOCR savePath)
  with assms ai_screenshot_guarded [of M H F withOCR savePath s out s'] show ?thesis
    by (auto simp: problem_def)
next
  case (AiClickElement selector action)
  with assms ai_clickElement_guarded [of F selector action s out s'] show ?thesis
    by (auto simp: problem_def)
next
  case (AiFindElements selector limit)
  with assms ai_findElements_guarded [of M F selector limit s out s'] show ?thesis
    by (auto simp: problem_def)
next
  case (AiAppControl action appName)
  with assms ai_appControl_guarded [of M F action appName s out s'] show ?thesis
    by (auto simp: problem_def)
next
  case (AiOcrTool imagePath)
  with assms ai_ocrTool_guarded [of M F imagePath s out s'] show ?thesis
    by (auto simp: problem_def)
next
  case (AiTextInput t selector useClipboard)
  with assms ai_textInput_guarded [of F t selector useClipboard s out s'] show ?thesis
    by (auto simp: problem_def)
next
  case (AiCalculator expression useApp)
  with assms ai_calculator_guarded [of M H F expression useApp s out s'] show ?thesis
    by auto
next
  case (AiFileManager action filepath content directory)
  with assms ai_fileManager_guarded [of H F action filepath content directory s out s']
  show ?thesis by auto
next
  case (AiWebTool action url browser)
  with assms ai_webTool_guarded [of F action url browser s out s'] show ?thesis
    by auto
next
  case (AiCommandRunner windowsCommand unixCommand)
  with assms ai_commandRunner_guarded [of F windowsCommand unixCommand s out s'] show ?thesis
    by (auto simp: problem_def)
qed

subsection \<open>The shape of the results\<close>

named_theorems yields_intros

lemma yields_ret [yields_intros]: "P x \<Longrightarrow> yields P (ret x)"
  by (simp add: yields_def ret_def)

lemma yields_throw [yields_intros]: "yields P (throw m)"
  by (simp add: yields_def throw_def)

lemma yields_bnd [yields_intros]: "(\<And>x. yields P (f x)) \<Longrightarrow> yields P (bnd m f)"
  by (auto simp: yields_def bnd_def split: prod.splits outcome.splits)

lemma yields_try_catch [yields_intros]:
  "yields P m \<Longrightarrow> (\<And>e. yields P (h e)) \<Longrightarrow> yields P (try_catch m h)"
  by (auto simp: yields_def try_catch_def split: prod.splits outcome.splits)

lemma yields_if [yields_intros]:
  "yields P a \<Longrightarrow> yields P b \<Longrightarrow> yields P (if c then a else b)"
  by simp

lemma yieldsD: "yields P c \<Longrightarrow> c s = (Ok r, s') \<Longrightarrow> P r"
  by (auto simp: yields_def)

lemmas shape_defs =
  failure_shape_def success_shape_def stderr_shape_def status_shape_def failure_def
  problem_def

lemma screenshot_shape:
  "yields (\<lambda>r. failure_shape r \<or> success_shape r) (screenshot_execute lg M F withOCR)"
  unfolding screenshot_execute_def Let_def by (intro yields_intros) (simp_all add: shape_defs)

lemma clickElement_shape:
  "yields (\<lambda>r. failure_shape r \<or> success_shape r) (clickElement_execute lg F selector)"
  unfolding clickElement_execute_def Let_def by (intro yields_intros) (simp_all add: shape_defs)

lemma findElements_shape:
  "yields (\<lambda>r. failure_shape r \<or> success_shape r) (findElements_execute lg M F selector)"
  unfolding findElements_execute_def Let_def by (intro yields_intros) (simp_all add: shape_defs)

lemma openApp_shape:
  "yields (\<lambda>r. failure_shape r \<or> success_shape r) (openApp_execute lg F appName)"
  unfolding openApp_execute_def Let_def by (intro yields_intros) (simp_all add: shape_defs)

lemma typeText_shape:
  "yields (\<lambda>r. failure_shape r \<or> success_shape r) (typeText_execute lg F t)"
  unfolding typeText_execute_def Let_def by (intro yields_intros) (simp_all add: shape_defs)

lemma calculate_shape:
  "yields (\<lambda>r. failure_shape r \<or> success_shape r) (calculate_execute lg M H expression)"
  unfolding calculate_execute_def Let_def by (intro yields_intros) (simp_all add: shape_defs)

text \<open>A result of runCommand is a failure, or the success that holds in \<open>error\<close> the
  standard error output which the facade returned for the command.\<close>

lemma runCommand_shape:
  assumes "runCommand_execute lg M H F command s = (Ok r, s')"
  shows "failure_shape r
         \<or> (\<exists>out w'. command_run H F command (world s) = (Inr out, w') \<and> stderr_shape out r)"
  using assms
  by (cases lg)
     (auto simp: runCommand_execute_def command_run_def Let_def io_defs shape_defs
           split: prod.splits sum.splits)

lemma agent_execute_shape:
  assumes "agent_execute lg M H F c s = (Ok r, s')"
  shows "failure_shape r \<or> success_shape r
         \<or> (\<exists>command out w'. c = RunCommand command
               \<and> command_run H F command (world s) = (Inr out, w') \<and> stderr_shape out r)"
proof (cases c)
  case (Screenshot withOCR)
  with assms yieldsD [OF screenshot_shape] show ?thesis by fastforce
next
  case (ClickElement selector)
  with assms yieldsD [OF clickElement_shape] show ?thesis by fastforce
next
  case (FindElements selector)
  with assms yieldsD [OF findElements_shape] show ?thesis by fastforce
next
  case (OpenApp appName)
  with assms yieldsD [OF openApp_shape] show ?thesis by fastforce
next
  case (TypeText t)
  with assms yieldsD [OF typeText_shape] show ?thesis by fastforce
next
  case (Calculate expression)
  with assms yieldsD [OF calculate_shape] show ?thesis by fastforce
next
  case (RunCommand command)
  with assms runCommand_shape [of lg M H F command s r s'] show ?thesis by auto
qed

lemma sva_execute_shape:
  "yields (\<lambda>r. failure_shape r \<or> success_shape r) (sva_execute M H F c)"
proof (cases c)
  case SvaOpenPaint
  show ?thesis
    unfolding SvaOpenPaint sva_execute.simps sva_openPaint_execute_def Let_def
    by (intro yields_intros) (simp_all add: shape_defs)
next
  case (DrawOnCanvas x1 y1 x2 y2 d)
  show ?thesis
    unfolding DrawOnCanvas sva_execute.simps drawOnCanvas_execute_def Let_def
    by (intro yields_intros) (simp_all add: shape_defs)
next
  case (TakeScreenshot reason)
  show ?thesis
    unfolding TakeScreenshot sva_execute.simps takeScreenshot_execute_def Let_def
    by (intro yields_intros) (simp_all add: shape_defs)
next
  case (AnalyzeScreenshot question)
  show ?thesis
    unfolding AnalyzeScreenshot sva_execute.simps analyzeScreenshot_execute_def Let_def
    by (intro yields_intros) (simp_all add: shape_defs)
qed

lemma openPaint_shape: "yields (\<lambda>r. failure_shape r \<or> success_shape r) (openPaint_execute F)"
  unfolding openPaint_execute_def Let_def by (intro yields_intros) (simp_all add: shape_defs)

lemma setupBrush_shape:
  "yields (\<lambda>r. failure_shape r \<or> success_shape r) (setupBrush_execute M F params)"
  unfolding setupBrush_execute_def Let_def by (intro yields_intros) (simp_all add: shape_defs)

lemma drawShape_shape:
  "yields (\<lambda>r. failure_shape r \<or> success_shape r) (drawShape_execute M F params)"
  unfolding drawShape_execute_def Let_def by (intro yields_intros) (simp_all add: shape_defs)

lemma captureArtwork_shape:
  "yields (\<lambda>r. failure_shape r \<or> success_shape r) (captureArtwork_execute M H F params)"
  unfolding captureArtwork_execute_def Let_def by (intro yields_intros) (simp_all add: shape_defs)

lemma analyzeArtwork_shape:
  "yields (\<lambda>r. failure_shape r \<or> success_shape r) (analyzeArtwork_execute M H params)"
  unfolding analyzeArtwork_execute_def Let_def by (intro yields_intros) (simp_all add: shape_defs)

lemma artistTools_shape:
  assumes "lookup (artistTools M H F) toolName = Own execute"
  shows "yields (\<lambda>r. failure_shape r \<or> success_shape r) (execute params)"
  using assms openPaint_shape [of F] setupBrush_shape [of M F params]
    drawShape_shape [of M F params] captureArtwork_shape [of M H F params]
    analyzeArtwork_shape [of M H params]
  by (auto simp: lookup_def artistTools_def split: if_splits)

lemma ai_execute_shape: "yields status_shape (ai_execute M H F c)"
proof (cases c)
  case (AiScreenshot withOCR savePath)
  show ?thesis
    unfolding AiScreenshot ai_execute.simps
    by (auto simp: yields_def ai_screenshot_execute_def Let_def io_defs shape_defs
        split: prod.splits sum.splits if_splits)
next
  case (AiClickElement selector action)
  show ?thesis
    unfolding AiClickElement ai_execute.simps ai_clickElement_execute_def Let_def
    by (intro yields_intros) (simp_all add: shape_defs)
next
  case (AiFindElements selector limit)
  show ?thesis
    unfolding AiFindElements ai_execute.simps ai_findElements_execute_def Let_def
    by (intro yields_intros) (simp_all add: shape_defs)
next
  case (AiAppControl action appName)
  show ?thesis
    unfolding AiAppControl ai_execute.simps ai_appControl_execute_def Let_def
    by (intro yields_intros) (simp_all add: shape_defs)
next
  case (AiOcrTool imagePath)
  show ?thesis
    unfolding AiOcrTool ai_execute.simps ai_ocrTool_execute_def Let_def
    by (intro yields_intros) (simp_all add: shape_defs)
next
  case (AiTextInput t selector useClipboard)
  show ?thesis
    unfolding AiTextInput ai_execute.simps ai_textInput_execute_def Let_def
    by (intro yields_intros) (simp_all add: shape_defs)
next
  case (AiCalculator expression useApp)
  show ?thesis
    unfolding AiCalculator ai_execute.simps ai_calculator_execute_def calculator_demo_def
      Let_def
    by (intro yields_intros) (simp_all add: shape_defs)
next
  case (AiFileManager action filepath content directory)
  show ?thesis
    unfolding AiFileManager ai_execute.simps ai_fileManager_execute_def Let_def
    by (intro yields_intros) (simp_all add: shape_defs)
next
  case (AiWebTool action url browser)
  show ?thesis
    unfolding AiWebTool ai_execute.simps ai_webTool_execute_def Let_def
    by (intro yields_intros) (simp_all add: shape_defs)
next
  case (AiCommandRunner windowsCommand unixCommand)
  show ?thesis
    unfolding AiCommandRunner ai_execute.simps ai_commandRunner_execute_def Let_def
    by (intro yields_intros) (simp_all add: shape_defs)
qed

text \<open>
  Claim C1, as the code has it. No exception leaves an \<open>execute\<close> function. When a facade
  call throws in a tool of simple-agent.js, test-agent.js or simple-vision-artist.js or
  in openPaint or captureArtwork of vision-artist.js, the tool returns
  \<open>{success: false, error: <the message of the call>}\<close> (the calculator of the agent
  scripts and analyzeArtwork call no facade method). setupBrush returns its success whether or not
  its brush clicks throw. drawShape returns \<open>{success: false, error: m}\<close> when its three
  canvas lookups throw, the last with message \<open>m\<close>, and its success when a lookup
  returns, whether or not the strokes throw. A result of a tool of ai-agent.js has no
  \<open>success\<close> property; when a facade call throws the tool returns an object whose \<open>error\<close>
  property is the text of its \<open>catch\<close> block followed by the message, but for its
  calculator, which returns its response with \<open>appError\<close> set and no \<open>error\<close> property.
  A text handed to a calculator that ends the process or never returns throws nothing:
  the statement says that no exception leaves the tool, not that the tool returns.
\<close>

theorem tool_failures_are_results:
  "(agent_execute lg M H F c s = (out, s')
      \<longrightarrow> (\<forall>e. out \<noteq> Thrown e)
          \<and> (faults s' \<noteq> faults s \<longrightarrow> out = Ok (failure (last (faults s')))))
   \<and> (sva_execute M H F d s = (out, s')
      \<longrightarrow> (\<forall>e. out \<noteq> Thrown e)
          \<and> (faults s' \<noteq> faults s \<longrightarrow> out = Ok (failure (last (faults s')))))
   \<and> (openPaint_execute F s = (out, s')
      \<longrightarrow> (\<forall>e. out \<noteq> Thrown e)
          \<and> (faults s' \<noteq> faults s \<longrightarrow> out = Ok (failure (last (faults s')))))
   \<and> (captureArtwork_execute M H F params s = (out, s')
      \<longrightarrow> (\<forall>e. out \<noteq> Thrown e)
          \<and> (faults s' \<noteq> faults s \<longrightarrow> out = Ok (failure (last (faults s')))))
   \<and> (analyzeArtwork_execute M H params s = (out, s')
      \<longrightarrow> (\<forall>e. out \<noteq> Thrown e) \<and> faults s' = faults s)
   \<and> fst (setupBrush_execute M F params s) = Ok (brush_result M params)
   \<and> (some_canvas F (world s)
      \<longrightarrow> fst (drawShape_execute M F params s) = Ok (drawn_result M params))
   \<and> (no_canvas F (world s) m
      \<longrightarrow> fst (drawShape_execute M F params s) = Ok (failure m))
   \<and> (ai_execute M H F a s = (out, s')
      \<longrightarrow> (\<forall>e. out \<noteq> Thrown e)
          \<and> (\<forall>r. out = Ok r \<longrightarrow> \<not> has_prop r ''success'')
          \<and> (faults s' \<noteq> faults s
               \<longrightarrow> (\<exists>r. out = Ok r
                      \<and> ((\<forall>e u. a \<noteq> AiCalculator e u)
                           \<longrightarrow> get_prop r ''error''
                                 = Str (failure_prefix a @ last (faults s')))
                      \<and> ((\<exists>e u. a = AiCalculator e u)
                           \<longrightarrow> \<not> has_prop r ''error''
                               \<and> get_prop r ''appError''
                                   = Str ''Could not launch Calculator app''))))"
proof -
  have brush: "fst (setupBrush_execute M F params s) = Ok (brush_result M params)"
    using setupBrush_exact [of M F params s] by auto
  have ai: "\<forall>r. out = Ok r \<longrightarrow> \<not> has_prop r ''success''"
    if "ai_execute M H F a s = (out, s')"
    using yieldsD [OF ai_execute_shape, of M H F a s _ s'] that
    by (auto simp: status_shape_def)
  show ?thesis
    using agent_execute_guarded [of lg M H F c s out s']
      sva_execute_guarded [of M H F d s out s']
      openPaint_guarded [of F s out s']
      captureArtwork_guarded [of M H F params s out s']
      analyzeArtwork_guarded [of M H params s out s']
      brush drawShape_exact [of F s M params m]
      ai_execute_guarded [of M H F a s out s'] ai
    by blast
qed

theorem tool_failures_are_results_witness:
  "fst (agent_execute True int_numbers blank_host
          (blank_desktop\<lparr>el_click := (\<lambda>e w. (Inl ''Element is disabled'', w))\<rparr>)
          (ClickElement ''name:Seven'') start)
     = Ok (Obj [(''success'', Bool False), (''error'', Str ''Element is disabled'')])
   \<and> fst (drawShape_execute int_numbers
          (blank_desktop\<lparr>locator := (\<lambda>sel w. (Inl (''no '' @ sel), w))\<rparr>)
          [(''shape'', Str ''star'')] start)
     = Ok (Obj [(''success'', Bool False), (''error'', Str ''no name:Paint'')])
   \<and> fst (drawShape_execute int_numbers
          (blank_desktop\<lparr>mouseMove := (\<lambda>l x y w. (Inl ''pointer lost'', w))\<rparr>)
          [(''shape'', Str ''line'')] start)
     = Ok (drawn_result int_numbers [(''shape'', Str ''line'')])
   \<and> fst (ai_execute int_numbers blank_host
          (blank_desktop\<lparr>loc_first := (\<lambda>l w. (Inl ''Element not found'', w))\<rparr>)
          (AiClickElement ''name:Seven'' None) start)
     = Ok (Obj [(''error'', Str ''Click failed: Element not found'')])"
proof -
  let ?F = "blank_desktop\<lparr>el_click := (\<lambda>e w. (Inl ''Element is disabled'', w))\<rparr>"
  let ?run = "agent_execute True int_numbers blank_host ?F (ClickElement ''name:Seven'') start"
  have "faults (snd ?run) = [''Element is disabled'']"
    by (simp add: clickElement_execute_def io_defs blank_desktop_def start_def)
  with tool_failures_are_results [where lg = True and M = int_numbers and H = blank_host
         and F = ?F and c = "ClickElement ''name:Seven''" and s = start
         and out = "fst ?run" and s' = "snd ?run"]
  have click: "fst ?run = Ok (failure ''Element is disabled'')"
    by (simp add: start_def)
  let ?G = "blank_desktop\<lparr>locator := (\<lambda>sel w. (Inl (''no '' @ sel), w))\<rparr>"
  have "no_canvas ?G (world start) ''no name:Paint''"
    by (simp add: no_canvas_def blank_desktop_def)
  with tool_failures_are_results [where F = ?G and s = start and m = "''no name:Paint''"
         and M = int_numbers and params = "[(''shape'', Str ''star'')]"]
  have lost: "fst (drawShape_execute int_numbers ?G [(''shape'', Str ''star'')] start)
                = Ok (failure ''no name:Paint'')"
    by blast
  let ?K = "blank_desktop\<lparr>mouseMove := (\<lambda>l x y w. (Inl ''pointer lost'', w))\<rparr>"
  have "some_canvas ?K (world start)"
    by (simp add: some_canvas_def blank_desktop_def)
  with tool_failures_are_results [where F = ?K and s = start
         and M = int_numbers and params = "[(''shape'', Str ''line'')]"]
  have found: "fst (drawShape_execute int_numbers ?K [(''shape'', Str ''line'')] start)
                = Ok (drawn_result int_numbers [(''shape'', Str ''line'')])"
    by blast
  let ?L = "blank_desktop\<lparr>loc_first := (\<lambda>l w. (Inl ''Element not found'', w))\<rparr>"
  let ?ai = "ai_execute int_numbers blank_host ?L (AiClickElement ''name:Seven'' None) start"
  note part = tool_failures_are_results [where M = int_numbers and H = blank_host
         and F = ?L and a = "AiClickElement ''name:Seven'' None" and s = start
         and out = "fst ?ai" and s' = "snd ?ai",
         THEN conjunct2, THEN conjunct2, THEN conjunct2, THEN conjunct2, THEN conjunct2,
         THEN conjunct2, THEN conjunct2, THEN conjunct2]
  have grown: "faults (snd ?ai) = [''Element not found'']"
    by (simp add: ai_clickElement_execute_def io_defs blank_desktop_def start_def)
  have "\<exists>r. fst ?ai = Ok r
          \<and> get_prop r ''error'' = Str (''Click failed: '' @ last (faults (snd ?ai)))"
    using part grown by (simp add: start_def)
  then obtain r where "fst ?ai = Ok r"
    and "get_prop r ''error'' = Str ''Click failed: Element not found''"
    using grown by auto
  moreover have "\<exists>m. fst ?ai = Ok (Obj [(''error'', Str m)])"
    by (simp add: ai_clickElement_execute_def io_defs blank_desktop_def start_def problem_def)
  ultimately have ai: "fst ?ai = Ok (Obj [(''error'', Str ''Click failed: Element not found'')])"
    by auto
  from click lost found ai show ?thesis by (simp add: failure_def)
qed

text \<open>
  Against claim C1 as stated: with a brush that cannot be clicked, both brush clicks of
  setupBrush throw and the tool reports a success; with a screen that cannot be
  captured, the screenshot tool of ai-agent.js returns an object that has an \<open>error\<close>
  property and no \<open>success\<close> property.
\<close>

theorem swallowed_failure_counterexample:
  "fst (setupBrush_execute int_numbers
          (blank_desktop\<lparr>loc_click := (\<lambda>l w. (Inl ''no brush'', w))\<rparr>) [] start)
     = Ok (Obj [(''success'', Bool True),
                (''message'', Str ''Brush configured: medium black brush ready!''),
                (''settings'', Obj [(''size'', Str ''medium''), (''color'', Str ''black'')])])
   \<and> faults (snd (setupBrush_execute int_numbers
          (blank_desktop\<lparr>loc_click := (\<lambda>l w. (Inl ''no brush'', w))\<rparr>) [] start))
     = [''no brush'', ''no brush'']
   \<and> fst (ai_screenshot_execute int_numbers blank_host
          (blank_desktop\<lparr>captureScreen := (\<lambda>w. (Inl ''no display'', w))\<rparr>) None None start)
     = Ok (Obj [(''error'', Str ''Screenshot failed: no display'')])"
  by (simp add: setupBrush_execute_def select_brush_def ai_screenshot_execute_def io_defs
      arg_default_def arg_def blank_desktop_def start_def problem_def)

text \<open>
  Claim C2, as the code has it. A result of a tool of simple-agent.js, test-agent.js,
  simple-vision-artist.js or vision-artist.js carries the boolean \<open>success\<close> and has one
  of the two shapes (a failure with an error string and no message, a success with a
  message string and no \<open>error\<close> property), but for a success of runCommand, whose
  \<open>error\<close> property holds the standard error output that the facade returned for the
  command. A result of a tool of ai-agent.js has no \<open>success\<close> property; when it has an
  \<open>error\<close> property, that property holds a string and the result has no message.
\<close>

theorem tool_result_shapes:
  "(agent_execute lg M H F c s = (Ok r, s')
      \<longrightarrow> failure_shape r \<or> success_shape r
          \<or> (\<exists>command out w'. c = RunCommand command
                \<and> command_run H F command (world s) = (Inr out, w') \<and> stderr_shape out r))
   \<and> (sva_execute M H F d s = (Ok r, s') \<longrightarrow> failure_shape r \<or> success_shape r)
   \<and> (lookup (artistTools M H F) toolName = Own execute \<and> execute params s = (Ok r, s')
      \<longrightarrow> failure_shape r \<or> success_shape r)
   \<and> (ai_execute M H F a s = (Ok r, s') \<longrightarrow> status_shape r)"
  using agent_execute_shape [of lg M H F c s r s']
    yieldsD [OF sva_execute_shape, of M H F d s r s']
    yieldsD [OF artistTools_shape, of M H F toolName execute params s r s']
    yieldsD [OF ai_execute_shape, of M H F a s r s']
  by blast

theorem tool_result_shapes_witness:
  \<open>stderr_shape \<lparr>exitStatus = Some 2, stdout = ''done'', stderr = ''warning''\<rparr>
      (Obj [(''success'', Bool True), (''exitCode'', Num 2), (''output'', Str ''done''),
            (''error'', Str ''warning''),
            (''message'', Str ''Command executed with exit code 2'')] :: int jsval)
   \<and> failure_shape (Obj [(''success'', Bool False), (''error'', Str ''no window'')] :: int jsval)
   \<and> success_shape (brush_result int_numbers [(''color'', Str ''red'')])
   \<and> status_shape (Obj [(''error'', Str ''Web tool failed: no browser''),
                         (''action'', Str ''getCurrentBrowser'')] :: int jsval)\<close>
proof -
  let ?out = "\<lparr>exitStatus = Some (2 :: int), stdout = ''done'', stderr = ''warning''\<rparr>"
  let ?F = "blank_desktop\<lparr>runCommand := (\<lambda>win unix w. (Inr ?out, w))\<rparr>"
  let ?r = "Obj [(''success'', Bool True), (''exitCode'', Num 2), (''output'', Str ''done''),
                 (''error'', Str ''warning''),
                 (''message'', Str ''Command executed with exit code 2'')] :: int jsval"
  have run: "agent_execute False int_numbers blank_host ?F (RunCommand ''make'') start
               = (Ok ?r, start)"
    by (simp add: runCommand_execute_def io_defs blank_desktop_def blank_host_def start_def
        int_numbers_def status_value_def decimal.simps)
  have "\<not> failure_shape ?r" and "\<not> success_shape ?r"
    by (simp_all add: failure_shape_def success_shape_def)
  with run tool_result_shapes [where lg = False and M = int_numbers and H = blank_host
         and F = ?F and c = "RunCommand ''make''" and s = start and r = ?r and s' = start]
  obtain out w' where "command_run blank_host ?F ''make'' (world start) = (Inr out, w')"
    and "stderr_shape out ?r"
    by blast
  then have one: "stderr_shape ?out ?r"
    by (auto simp: command_run_def blank_desktop_def)
  let ?G = "blank_desktop\<lparr>locator := (\<lambda>sel w. (Inl ''no window'', w))\<rparr>"
  let ?q = "Obj [(''success'', Bool False), (''error'', Str ''no window'')] :: int jsval"
  have "sva_execute int_numbers blank_host ?G (DrawOnCanvas 1 2 3 4 ''a line'') start
          = (Ok ?q, start\<lparr>console := [(Yellow, ''Drawing a line from (1,2) to (3,4)...'')],
                             faults := [''no window'']\<rparr>)"
    by (simp add: drawOnCanvas_execute_def io_defs blank_desktop_def start_def failure_def
        int_numbers_def decimal.simps)
  moreover have "\<not> success_shape ?q" by (simp add: success_shape_def)
  ultimately have two: "failure_shape ?q"
    using tool_result_shapes [where M = int_numbers and H = blank_host and F = ?G
            and d = "DrawOnCanvas 1 2 3 4 ''a line''" and s = start and r = ?q]
    by blast
  let ?p = "[(''color'', Str ''red'')] :: int props"
  have "lookup (artistTools int_numbers blank_host blank_desktop) ''setupBrush''
          = Own (setupBrush_execute int_numbers blank_desktop)"
    by (simp add: lookup_def artistTools_def)
  moreover obtain s2 where
    "setupBrush_execute int_numbers blank_desktop ?p start
       = (Ok (brush_result int_numbers ?p), s2)"
    using setupBrush_exact [of int_numbers blank_desktop ?p start] by blast
  moreover have "\<not> failure_shape (brush_result int_numbers ?p)"
    by (simp add: failure_shape_def brush_result_def)
  ultimately have three: "success_shape (brush_result int_numbers ?p)"
    using tool_result_shapes [where M = int_numbers and H = blank_host and F = blank_desktop
            and toolName = "''setupBrush''"
            and execute = "setupBrush_execute int_numbers blank_desktop"
            and params = ?p and s = start and r = "brush_result int_numbers ?p" and s' = s2]
    by blast
  let ?K = "blank_desktop\<lparr>getCurrentBrowserWindow := (\<lambda>w. (Inl ''no browser'', w))\<rparr>"
  let ?e = "Obj [(''error'', Str ''Web tool failed: no browser''),
                 (''action'', Str ''getCurrentBrowser'')] :: int jsval"
  have "ai_execute int_numbers blank_host ?K (AiWebTool ''getCurrentBrowser'' None None) start
          = (Ok ?e, start\<lparr>faults := [''no browser'']\<rparr>)"
    by (simp add: ai_webTool_execute_def io_defs blank_desktop_def start_def)
  then have four: "status_shape ?e"
    using tool_result_shapes [where M = int_numbers and H = blank_host and F = ?K
            and a = "AiWebTool ''getCurrentBrowser'' None None" and s = start and r = ?e]
    by blast
  from one two three four show ?thesis by simp
qed

text \<open>
  Against claim C2 as stated: a command that writes to its standard error output gives a
  result with \<open>success: true\<close> and a populated \<open>error\<close> property, and the calculator of
  ai-agent.js gives a result with no \<open>success\<close> property at all.
\<close>

theorem success_with_error_counterexample:
  \<open>fst (runCommand_execute False int_numbers blank_host
          (blank_desktop\<lparr>runCommand := (\<lambda>win unix w.
             (Inr \<lparr>exitStatus = Some 0, stdout = ''done'', stderr = ''warning''\<rparr>, w))\<rparr>)
          ''make'' start)
     = Ok (Obj [(''success'', Bool True), (''exitCode'', Num 0), (''output'', Str ''done''),
                (''error'', Str ''warning''),
                (''message'', Str ''Command executed with exit code 0'')])
   \<and> fst (ai_calculator_execute int_numbers
            (blank_host\<lparr>evaluate := (\<lambda>body w. (Ok (Num 4), w, []))\<rparr>) blank_desktop
            ''2+2'' None start)
     = Ok (Obj [(''result'', Str ''4''), (''expression'', Str ''2+2''),
                (''method'', Str ''programmatic'')])\<close>
  by (simp add: runCommand_execute_def ai_calculator_execute_def io_defs toString_def
      blank_desktop_def blank_host_def start_def int_numbers_def status_value_def
      decimal.simps)

subsection \<open>Resolving a name in a registry\<close>

lemma lookup_registered: "map_of obj k = Some v \<Longrightarrow> lookup obj k = Own v"
  by (simp add: lookup_def)

lemma lookup_unknown:
  "k \<notin> set (map fst obj) \<Longrightarrow> k \<notin> set object_prototype \<Longrightarrow> lookup obj k = Absent"
  by (simp add: lookup_def map_of_eq_None_iff [THEN iffD2])

lemma lookup_inherited:
  "k \<notin> set (map fst obj) \<Longrightarrow> k \<in> set object_prototype \<Longrightarrow> lookup obj k = Inherited"
  by (simp add: lookup_def map_of_eq_None_iff [THEN iffD2])

lemma artistTools_returns:
  assumes "lookup (artistTools M H F) toolName = Own execute"
  shows "\<exists>r s'. execute params s = (Ok r, s')"
  using assms openPaint_returns [of F s] setupBrush_exact [of M F params s]
    drawShape_returns [of M F params s] captureArtwork_returns [of M H F params s]
    analyzeArtwork_returns [of M H params s]
  by (auto simp: lookup_def artistTools_def split: if_splits)

text \<open>A registered tool is resolved and executed by \<open>testTool\<close>, which hands back the
  result of the tool.\<close>

lemma testTool_registered:
  assumes "lookup (artistTools M H F) toolName = Own execute"
  shows "\<exists>r s1 s2.
           execute params (s\<lparr>console := console s
              @ [(Blue, ''\<newline>Testing '' @ toolName @ ''...'')]\<rparr>) = (Ok r, s1)
           \<and> testTool M H F toolName params s = (Ok r, s2)"
proof -
  let ?s0 = "s\<lparr>console := console s @ [(Blue, ''\<newline>Testing '' @ toolName @ ''...'')]\<rparr>"
  obtain r s1 where run: "execute params ?s0 = (Ok r, s1)"
    using artistTools_returns [OF assms] by blast
  from yieldsD [OF artistTools_shape [OF assms] run]
  have "get_prop r ''success'' = Bool False \<or> get_prop r ''success'' = Bool True"
    by (auto simp: failure_shape_def success_shape_def)
  then have obj: "r \<noteq> Undefined" "r \<noteq> Null" by auto
  have "\<exists>s2. testTool M H F toolName params s = (Ok r, s2)"
    using assms run obj by (simp add: testTool_def io_defs read_prop_def)
  with run show ?thesis by blast
qed

text \<open>A name that is neither registered nor inherited is reported as not found, and no
  tool is executed.\<close>

lemma testTool_unknown:
  assumes "toolName \<notin> set [''openPaint'', ''setupBrush'', ''drawShape'', ''captureArtwork'',
                            ''analyzeArtwork'']"
      and "toolName \<notin> set object_prototype"
  shows "testTool M H F toolName params s
           = (Ok Undefined, s\<lparr>console := console s
                @ [(Blue, ''\<newline>Testing '' @ toolName @ ''...''),
                   (Red, ''Tool '' @ toolName @ '' not found'')]\<rparr>)"
proof -
  have "lookup (artistTools M H F) toolName = Absent"
    using assms by (intro lookup_unknown) (simp_all add: artistTools_def)
  then show ?thesis by (simp add: testTool_def io_defs)
qed

text \<open>
  Claim C6 at a name that \<open>commands\<close> inherits. The user types \<open>constructor\<close> at the prompt
  of ai-agent.js: the name is no key of the registry, yet the pass of the loop prints
  nothing, neither the unknown-command error nor anything of a handler, and goes on to
  the next prompt.
\<close>

theorem inherited_name_is_not_reported:
  assumes "map fst commands = command_names"
  shows "''constructor'' \<notin> set (map fst commands)
         \<and> agent_step commands ''constructor'' s = (Ok (), s)"
proof -
  have notin: "''constructor'' \<notin> set (map fst commands)"
    by (simp add: assms command_names_def)
  have "lookup commands ''constructor'' = Inherited"
    using notin by (rule lookup_inherited) (simp add: object_prototype_def)
  moreover have "split_on (CHR '' '') (trim ''constructor'') = [''constructor'']"
    by (simp add: trim_def is_space_def)
  ultimately have "agent_step commands ''constructor'' s = (Ok (), s)"
    by (simp add: agent_step_def call_inherited_def ret_def)
  with notin show ?thesis ..
qed

theorem inherited_name_is_not_reported_witness:
  "''constructor'' \<notin> set (map fst echo_commands)
   \<and> agent_step echo_commands ''constructor'' start = (Ok (), start)"
  by (rule inherited_name_is_not_reported) (simp add: echo_commands_def comp_def)

text \<open>For comparison, on a registry whose handlers print their name: a registered name
  runs its handler, and a name that is neither a key nor inherited is reported.\<close>

lemma registered_command_is_run:
  "agent_step echo_commands ''click name:Seven'' start
     = (Ok (), start\<lparr>console := [(Plain, ''click'')]\<rparr>)"
  by (simp add: agent_step_def trim_def is_space_def lookup_def echo_commands_def
      command_names_def io_defs start_def)

lemma unknown_command_is_reported:
  \<open>agent_step echo_commands ''paint'' start
     = (Ok (), start\<lparr>console := [(Red, ''Unknown command: paint''),
                                  (Gray, ''Type "help" for available commands'')]\<rparr>)\<close>
  by (simp add: agent_step_def trim_def is_space_def lookup_def echo_commands_def
      command_names_def object_prototype_def io_defs start_def)

subsection \<open>One execution after the other\<close>





lemma drawSomething_safe [safe_intros]: "safe (drawSomething M F x1 y1 x2 y2 description)"
  unfolding drawSomething_def by (intro safe_intros quiet_intros)






subsection \<open>The points of a shape\<close>

lemma circle_loop_closed:
  "k \<le> 37 \<Longrightarrow> circle_loop M x y radius (10 * k) points
     = points @ map (\<lambda>j. polar M x y radius (radians M (10 * j))) [k..<37]"
proof (induction "37 - k" arbitrary: k points)
  case 0
  then have "k = 37" by simp
  then show ?case by (simp add: circle_loop.simps)
next
  case (Suc n)
  then have k: "k < 37" by simp
  with Suc have "circle_loop M x y radius (10 * Suc k)
                   (points @ [polar M x y radius (radians M (10 * k))])
     = (points @ [polar M x y radius (radians M (10 * k))])
         @ map (\<lambda>j. polar M x y radius (radians M (10 * j))) [Suc k..<37]"
    by (intro Suc.hyps(1)) simp_all
  moreover have "circle_loop M x y radius (10 * k) points
     = circle_loop M x y radius (10 * Suc k)
         (points @ [polar M x y radius (radians M (10 * k))])"
    using k by (subst circle_loop.simps) (simp add: add.commute)
  ultimately show ?case using k by (simp add: upt_conv_Cons)
qed

lemma star_loop_closed:
  "k \<le> 11 \<Longrightarrow> star_loop M x y sz k points = points @ map (star_point M x y sz) [k..<11]"
proof (induction "11 - k" arbitrary: k points)
  case 0
  then have "k = 11" by simp
  then show ?case by (simp add: star_loop.simps)
next
  case (Suc n)
  then have k: "k < 11" by simp
  with Suc have "star_loop M x y sz (Suc k) (points @ [star_point M x y sz k])
     = (points @ [star_point M x y sz k]) @ map (star_point M x y sz) [Suc k..<11]"
    by (intro Suc.hyps(1)) simp_all
  moreover have "star_loop M x y sz k points
     = star_loop M x y sz (Suc k) (points @ [star_point M x y sz k])"
    using k by (subst star_loop.simps) (simp add: add.commute)
  ultimately show ?case using k by (simp add: upt_conv_Cons)
qed

lemma heart_loop_closed:
  "k \<le> 36 \<Longrightarrow> heart_loop M x y scale (10 * k) points
     = points @ map (\<lambda>j. heart_point M x y scale (10 * j)) [k..<36]"
proof (induction "36 - k" arbitrary: k points)
  case 0
  then have "k = 36" by simp
  then show ?case by (simp add: heart_loop.simps)
next
  case (Suc n)
  then have k: "k < 36" by simp
  with Suc have "heart_loop M x y scale (10 * Suc k) (points @ [heart_point M x y scale (10 * k)])
     = (points @ [heart_point M x y scale (10 * k)])
         @ map (\<lambda>j. heart_point M x y scale (10 * j)) [Suc k..<36]"
    by (intro Suc.hyps(1)) simp_all
  moreover have "heart_loop M x y scale (10 * k) points
     = heart_loop M x y scale (10 * Suc k) (points @ [heart_point M x y scale (10 * k)])"
    using k by (subst heart_loop.simps) (simp add: add.commute)
  ultimately show ?case using k by (simp add: upt_conv_Cons)
qed

lemma spiral_loop_closed:
  "k \<le> 48 \<Longrightarrow> spiral_loop M x y sz (15 * k) points
     = points @ map (\<lambda>j. polar M x y (times_n M (over_n M (num M (15 * j)) (num M 720)) sz)
                            (radians M (15 * j))) [k..<48]"
proof (induction "48 - k" arbitrary: k points)
  case 0
  then have "k = 48" by simp
  then show ?case by (simp add: spiral_loop.simps)
next
  case (Suc n)
  then have k: "k < 48" by simp
  let ?p = "\<lambda>j. polar M x y (times_n M (over_n M (num M (15 * j)) (num M 720)) sz)
                   (radians M (15 * j))"
  from k Suc have "spiral_loop M x y sz (15 * Suc k) (points @ [?p k])
     = (points @ [?p k]) @ map ?p [Suc k..<48]"
    by (intro Suc.hyps(1)) simp_all
  moreover have "spiral_loop M x y sz (15 * k) points
     = spiral_loop M x y sz (15 * Suc k) (points @ [?p k])"
    using k by (subst spiral_loop.simps) (simp add: add.commute)
  ultimately show ?case using k by (simp add: upt_conv_Cons)
qed

text \<open>
  Claim C8. The points that a shape generator hands to the replay are a function of the
  centre and the size alone: for the circle the 37 points at the angles 0, 10, ..., 360
  degrees in this order, whatever the desktop and whatever the state of the process, so
  two calls with the same centre and radius replay the same sequence. The same holds of
  the star (11 points), the heart (36 points) and the spiral (48 points).
\<close>

theorem shape_points_are_a_function_of_the_arguments:
  "drawCircle M F canvas x y radius
     = drawConnectedPoints M F canvas
         (map (\<lambda>k. polar M x y radius (radians M (10 * k))) [0..<37])
   \<and> drawStar M F canvas x y sz
     = drawConnectedPoints M F canvas (map (star_point M x y sz) [0..<11])
   \<and> drawHeart M F canvas x y sz
     = drawConnectedPoints M F canvas
         (map (\<lambda>k. heart_point M x y (over_n M sz (num M 20)) (10 * k)) [0..<36])
   \<and> drawSpiral M F canvas x y sz
     = drawConnectedPoints M F canvas
         (map (\<lambda>k. polar M x y (times_n M (over_n M (num M (15 * k)) (num M 720)) sz)
                      (radians M (15 * k))) [0..<48])"
  using circle_loop_closed [of 0 M x y radius "[]"] star_loop_closed [of 0 M x y sz "[]"]
    heart_loop_closed [of 0 M x y "over_n M sz (num M 20)" "[]"]
    spiral_loop_closed [of 0 M x y sz "[]"]
  by (simp add: drawCircle_def drawStar_def drawHeart_def drawSpiral_def circle_points_def
      star_points_def heart_points_def spiral_points_def)

end
